theory Spec2Isabelle
  imports Main
begin

section \<open>JavaScript strings\<close>

text \<open>
  A JavaScript string is a sequence of UTF-16 code units, and \<open>length\<close> counts code
  units. A code unit is modelled as a natural number (below 65536 in every string the
  program can receive). ASCII literals of the source are written with \<open>js\<close>.
\<close>

type_synonym code_unit = nat
type_synonym jsstring = "code_unit list"

definition js :: "string \<Rightarrow> jsstring" where
  "js s = map of_char s"

text \<open>
  The white space of \<open>\s\<close> and of \<open>String.prototype.trim\<close>: tab, line feed, vertical
  tab, form feed, carriage return, space, no-break space, U+1680, U+2000 to U+200A,
  U+2028, U+2029, U+202F, U+205F, U+3000 and U+FEFF.
\<close>

definition is_space :: "code_unit \<Rightarrow> bool" where
  "is_space c \<longleftrightarrow>
     (9 \<le> c \<and> c \<le> 13) \<or> c = 32 \<or> c = 160 \<or> c = 5760 \<or> (8192 \<le> c \<and> c \<le> 8202) \<or>
     c = 8232 \<or> c = 8233 \<or> c = 8239 \<or> c = 8287 \<or> c = 12288 \<or> c = 65279"

definition is_digit :: "code_unit \<Rightarrow> bool" where
  "is_digit c \<longleftrightarrow> 48 \<le> c \<and> c \<le> 57"

text \<open>\<open>\w\<close> is \<open>[A-Za-z0-9_]\<close>.\<close>

definition is_word :: "code_unit \<Rightarrow> bool" where
  "is_word c \<longleftrightarrow> (65 \<le> c \<and> c \<le> 90) \<or> (97 \<le> c \<and> c \<le> 122) \<or> is_digit c \<or> c = 95"

definition trim :: "jsstring \<Rightarrow> jsstring" where
  "trim s = rev (dropWhile is_space (rev (dropWhile is_space s)))"

text \<open>
  \<open>toLowerCase\<close>: the letters A to Z are mapped to a to z. Of the case mappings of
  Unicode outside ASCII, the two that produce an ASCII letter are modelled: the Kelvin
  sign U+212A becomes k, and U+0130 becomes i followed by U+0307. Every other code unit
  is left as it is.
\<close>

definition lower_unit :: "code_unit \<Rightarrow> jsstring" where
  "lower_unit c =
     (if 65 \<le> c \<and> c \<le> 90 then [c + 32]
      else if c = 8490 then [107]
      else if c = 304 then [105, 775]
      else [c])"

definition toLowerCase :: "jsstring \<Rightarrow> jsstring" where
  "toLowerCase s = concat (map lower_unit s)"

text \<open>\<open>s.split('\n')\<close>: the empty string gives one empty line.\<close>

fun split_nl :: "jsstring \<Rightarrow> jsstring list" where
  "split_nl [] = [ [] ]"
| "split_nl (c # cs) =
     (if c = 10 then [] # split_nl cs
      else (case split_nl cs of [] \<Rightarrow> [ [c] ] | l # ls \<Rightarrow> (c # l) # ls))"

text \<open>\<open>xs.join(sep)\<close>.\<close>

fun join :: "jsstring \<Rightarrow> jsstring list \<Rightarrow> jsstring" where
  "join sep [] = []"
| "join sep [x] = x"
| "join sep (x # y # ys) = x @ sep @ join sep (y # ys)"

text \<open>\<open>s.startsWith(p)\<close>, \<open>s.endsWith(p)\<close> and \<open>s.includes(p)\<close>.\<close>

fun startsWith :: "jsstring \<Rightarrow> jsstring \<Rightarrow> bool" where
  "startsWith s [] = True"
| "startsWith [] (p # ps) = False"
| "startsWith (c # cs) (p # ps) = (c = p \<and> startsWith cs ps)"

definition endsWith :: "jsstring \<Rightarrow> jsstring \<Rightarrow> bool" where
  "endsWith s p = startsWith (rev s) (rev p)"

fun includes_str :: "jsstring \<Rightarrow> jsstring \<Rightarrow> bool" where
  "includes_str [] p = (p = [])"
| "includes_str (c # cs) p = (startsWith (c # cs) p \<or> includes_str cs p)"

text \<open>
  The decimal rendering of a number in a template literal. The numbers rendered are
  line numbers, lengths, counts and limits below \<open>2^53\<close>, which a double holds
  exactly.
\<close>

fun show_nat :: "nat \<Rightarrow> jsstring" where
  "show_nat n = (if n < 10 then [48 + n] else show_nat (n div 10) @ [48 + n mod 10])"

section \<open>Regular expressions\<close>

text \<open>
  The patterns of the source, as data. \<open>Many p\<close> is a greedy \<open>*\<close> and \<open>Many1 p\<close> a
  greedy \<open>+\<close> over a character class, \<open>Opt r\<close> is \<open>r?\<close>, \<open>Grp r\<close> a capture group and
  \<open>ChrI c\<close> a literal under the \<open>i\<close> flag.
\<close>

datatype regex =
    Chr code_unit
  | ChrI code_unit
  | Cls "code_unit \<Rightarrow> bool"
  | Opt regex
  | Many "code_unit \<Rightarrow> bool"
  | Many1 "code_unit \<Rightarrow> bool"
  | Seq regex regex
  | Alt regex regex
  | Grp regex

text \<open>
  Canonicalisation under the \<open>i\<close> flag (without \<open>u\<close>): a code unit is compared through
  its upper-case form, and no code unit outside ASCII is identified with an ASCII one.
  All \<open>ChrI\<close> literals of the source are ASCII.
\<close>

definition canon :: "code_unit \<Rightarrow> code_unit" where
  "canon c = (if 97 \<le> c \<and> c \<le> 122 then c - 32 else c)"

text \<open>
  Backtracking matching at the start of the input: all the ways the pattern can match,
  in the order a backtracking matcher tries them, each with its captures (in the order
  of the opening parentheses) and the input that is left.
\<close>

fun rx :: "regex \<Rightarrow> jsstring \<Rightarrow> (jsstring list \<times> jsstring) list" where
  "rx (Chr c) s = (case s of [] \<Rightarrow> [] | x # xs \<Rightarrow> if x = c then [([], xs)] else [])"
| "rx (ChrI c) s =
     (case s of [] \<Rightarrow> [] | x # xs \<Rightarrow> if canon x = canon c then [([], xs)] else [])"
| "rx (Cls p) s = (case s of [] \<Rightarrow> [] | x # xs \<Rightarrow> if p x then [([], xs)] else [])"
| "rx (Opt r) s = rx r s @ [([], s)]"
| "rx (Many p) s = map (\<lambda>k. ([], drop k s)) (rev [0..<Suc (length (takeWhile p s))])"
| "rx (Many1 p) s = map (\<lambda>k. ([], drop k s)) (rev [1..<Suc (length (takeWhile p s))])"
| "rx (Seq a b) s =
     concat (map (\<lambda>(c1, r1). map (\<lambda>(c2, r2). (c1 @ c2, r2)) (rx b r1)) (rx a s))"
| "rx (Alt a b) s = rx a s @ rx b s"
| "rx (Grp r) s = map (\<lambda>(c, rest). (take (length s - length rest) s # c, rest)) (rx r s)"

text \<open>A sequence of patterns, and a literal string as a pattern.\<close>

fun seqs :: "regex list \<Rightarrow> regex" where
  "seqs [] = Many (\<lambda>c. False)"
| "seqs [r] = r"
| "seqs (r # rs) = Seq r (seqs rs)"

definition lit :: "string \<Rightarrow> regex" where
  "lit s = seqs (map Chr (js s))"

definition liti :: "string \<Rightarrow> regex" where
  "liti s = seqs (map ChrI (js s))"

text \<open>
  \<open>s.match(r)\<close> for a pattern anchored with \<open>^\<close>: the first match, as the array
  JavaScript returns, with the matched text at index 0 and the captures from index 1.
\<close>

definition match_start :: "regex \<Rightarrow> jsstring \<Rightarrow> jsstring list option" where
  "match_start r s =
     (case rx r s of [] \<Rightarrow> None
      | (caps, rest) # _ \<Rightarrow> Some (take (length s - length rest) s # caps))"

text \<open>\<open>r.test(s)\<close> for a pattern anchored with \<open>^\<close>, and for one that is not.\<close>

definition test_start :: "regex \<Rightarrow> jsstring \<Rightarrow> bool" where
  "test_start r s \<longleftrightarrow> rx r s \<noteq> []"

fun test_anywhere :: "regex \<Rightarrow> jsstring \<Rightarrow> bool" where
  "test_anywhere r [] = (rx r [] \<noteq> [])"
| "test_anywhere r (c # cs) = (rx r (c # cs) \<noteq> [] \<or> test_anywhere r cs)"

text \<open>\<open>s.replace(r, '')\<close> for a pattern anchored with \<open>^\<close>.\<close>

definition remove_start :: "regex \<Rightarrow> jsstring \<Rightarrow> jsstring" where
  "remove_start r s = (case rx r s of [] \<Rightarrow> s | (caps, rest) # _ \<Rightarrow> rest)"

section \<open>The emoji pattern and its state\<close>

text \<open>
  \<open>EMOJI_REGEX\<close> is one module-level object with the flags \<open>g\<close> and \<open>u\<close>. Under
  \<open>u\<close> the input is read as code points: a high surrogate followed by a low surrogate
  is one character. \<open>code_points i s\<close> lists the code points of \<open>s\<close>, each with the
  index of the code unit after it, where \<open>s\<close> starts at index \<open>i\<close>.
\<close>

definition is_emoji :: "nat \<Rightarrow> bool" where
  "is_emoji cp \<longleftrightarrow>
     (128512 \<le> cp \<and> cp \<le> 128591) \<or> (127744 \<le> cp \<and> cp \<le> 128511) \<or>
     (128640 \<le> cp \<and> cp \<le> 128767) \<or> (127456 \<le> cp \<and> cp \<le> 127487) \<or>
     (9728 \<le> cp \<and> cp \<le> 9983) \<or> (9984 \<le> cp \<and> cp \<le> 10175)"

fun code_points :: "nat \<Rightarrow> jsstring \<Rightarrow> (nat \<times> nat) list" where
  "code_points i [] = []"
| "code_points i [c] = [(c, i + 1)]"
| "code_points i (c # d # cs) =
     (if 55296 \<le> c \<and> c \<le> 56319 \<and> 56320 \<le> d \<and> d \<le> 57343
      then (65536 + (c - 55296) * 1024 + (d - 56320), i + 2) # code_points (i + 2) cs
      else (c, i + 1) # code_points (i + 1) (d # cs))"

text \<open>
  \<open>EMOJI_REGEX.test(s)\<close>. Because of the \<open>g\<close> flag the search starts at the object's
  \<open>lastIndex\<close>, which the call leaves after the match it found, or at 0 when it found
  none. The state of the object is threaded through: the function takes \<open>lastIndex\<close>
  and returns the new one. A search that starts inside a surrogate pair tries that pair
  first, so the characters tried are those that end after \<open>lastIndex\<close>.
\<close>

definition emoji_test :: "nat \<Rightarrow> jsstring \<Rightarrow> bool \<times> nat" where
  "emoji_test lastIndex s =
     (if lastIndex > length s then (False, 0)
      else (case filter (\<lambda>(cp, e). lastIndex < e \<and> is_emoji cp) (code_points 0 s) of
              [] \<Rightarrow> (False, 0)
            | (cp, e) # _ \<Rightarrow> (True, e)))"

section \<open>The document\<close>

text \<open>
  \<open>Partial<PostLangAST>\<close>: every field may be missing (\<open>None\<close> is \<open>undefined\<close>). The
  field \<open>context\<close> of the source is \<open>post_context\<close> here and \<open>output\<close> is
  \<open>output_text\<close>; the fields of an evidence
  item, of the source reference and of the limits carry a prefix.
\<close>

record evidence_item =
  ev_value :: jsstring
  ev_context :: jsstring

record source_ref =
  src_title :: jsstring
  src_url :: jsstring
  credibility :: jsstring

text \<open>
  The value of a limit: \<open>undefined\<close>, a number below \<open>2^53\<close> (where every integer
  is a double), or a number of \<open>2^53\<close> or more, which the code holds as a double whose
  digits are not modelled. In \<open>PostLangLimits\<close> a key that is not there is \<open>None\<close>, and
  a key that is there with the value \<open>undefined\<close> is \<open>Some Undefined\<close>.
\<close>

datatype limit_value = Undefined | Num nat | Big

record PostLangLimits =
  lim_title :: "limit_value option"
  lim_claim :: "limit_value option"
  lim_evidence :: "limit_value option"
  lim_insight :: "limit_value option"
  lim_context :: "limit_value option"
  lim_total :: "limit_value option"

record PostLangAST =
  title :: "jsstring option"
  claim :: "jsstring option"
  evidence :: "evidence_item list option"
  insight :: "jsstring option"
  post_context :: "jsstring option"
  credential :: "jsstring option"
  source :: "source_ref option"
  limits :: "PostLangLimits option"

record CompileResult =
  success :: bool
  output_text :: "jsstring option"
  errors :: "jsstring list"
  warnings :: "jsstring list"

datatype js_error = TypeError

definition DEFAULT_LIMITS :: PostLangLimits where
  "DEFAULT_LIMITS =
     \<lparr>lim_title = Some (Num 80), lim_claim = Some (Num 150), lim_evidence = Some (Num 60),
      lim_insight = Some (Num 120), lim_context = Some (Num 100), lim_total = Some (Num 700)\<rparr>"

definition no_limits :: PostLangLimits where
  "no_limits =
     \<lparr>lim_title = None, lim_claim = None, lim_evidence = None,
      lim_insight = None, lim_context = None, lim_total = None\<rparr>"

text \<open>\<open>{ ...a, ...b }\<close>: a key of \<open>b\<close> overrides the same key of \<open>a\<close>.\<close>

definition override :: "'a option \<Rightarrow> 'a option \<Rightarrow> 'a option" where
  "override a b = (case b of None \<Rightarrow> a | Some v \<Rightarrow> Some v)"

definition spread_limits :: "PostLangLimits \<Rightarrow> PostLangLimits option \<Rightarrow> PostLangLimits" where
  "spread_limits a b =
     (case b of None \<Rightarrow> a
      | Some l \<Rightarrow>
          \<lparr>lim_title = override (lim_title a) (lim_title l),
           lim_claim = override (lim_claim a) (lim_claim l),
           lim_evidence = override (lim_evidence a) (lim_evidence l),
           lim_insight = override (lim_insight a) (lim_insight l),
           lim_context = override (lim_context a) (lim_context l),
           lim_total = override (lim_total a) (lim_total l)\<rparr>)"

text \<open>A string that JavaScript takes for true: defined and not empty.\<close>

fun truthy :: "jsstring option \<Rightarrow> bool" where
  "truthy None = False"
| "truthy (Some s) = (s \<noteq> [])"

section \<open>The parser\<close>

text \<open>The patterns of \<open>parse\<close>; 34 is the double quote and 124 the bar.\<close>

definition quoted :: regex where
  "quoted = seqs [Chr 34, Grp (Many1 (\<lambda>c. c \<noteq> 34)), Chr 34]"

definition limit_re :: regex where
  "limit_re =
     seqs [Chr (of_char CHR ''^''), Many is_space, Grp (Many1 is_word), Many is_space,
           Grp (Many1 is_digit)]"

definition title_re :: regex where
  "title_re = seqs [Chr (of_char CHR ''#''), Many is_space, quoted]"

definition claim_re :: regex where
  "claim_re = seqs [Chr (of_char CHR ''!''), Many is_space, quoted]"

definition evidence_re :: regex where
  "evidence_re =
     seqs [Chr (of_char CHR ''+''), Many is_space, Grp (Many1 (\<lambda>c. c \<noteq> 124)),
           Chr 124, Many is_space, quoted]"

definition insight_re :: regex where
  "insight_re = seqs [Chr (of_char CHR ''>''), Many is_space, quoted]"

definition context_re :: regex where
  "context_re = seqs [Chr (of_char CHR ''?''), Many is_space, quoted]"

definition credential_re :: regex where
  "credential_re = seqs [Chr (of_char CHR ''*''), Many is_space, quoted]"

definition source_re :: regex where
  "source_re =
     seqs [Chr (of_char CHR ''@''), Many is_space, quoted, Many is_space, Chr 124,
           Many is_space, Grp (Many1 (\<lambda>c. \<not> is_space c)), Many is_space, Chr 124,
           Many is_space, quoted]"

text \<open>
  \<open>parseInt(s, 10)\<close> on a string of digits: the number that the digits write, when it
  is below \<open>2^53\<close>; from there on the result is a double that need not be that number.
\<close>

definition decimal :: "jsstring \<Rightarrow> nat" where
  "decimal s = foldl (\<lambda>a d. 10 * a + (d - 48)) 0 s"

definition parseInt :: "jsstring \<Rightarrow> limit_value" where
  "parseInt s = (if decimal s < 9007199254740992 then Num (decimal s) else Big)"

text \<open>\<open>limits[key] = value\<close> for one of the six names; any other key changes nothing.\<close>

definition set_limit :: "jsstring \<Rightarrow> limit_value \<Rightarrow> PostLangLimits \<Rightarrow> PostLangLimits" where
  "set_limit key v l =
     (if key = js ''title'' then l\<lparr>lim_title := Some v\<rparr>
      else if key = js ''claim'' then l\<lparr>lim_claim := Some v\<rparr>
      else if key = js ''evidence'' then l\<lparr>lim_evidence := Some v\<rparr>
      else if key = js ''insight'' then l\<lparr>lim_insight := Some v\<rparr>
      else if key = js ''context'' then l\<lparr>lim_context := Some v\<rparr>
      else if key = js ''total'' then l\<lparr>lim_total := Some v\<rparr>
      else l)"

definition line_error :: "nat \<Rightarrow> string \<Rightarrow> jsstring" where
  "line_error lineNum msg = js ''Line '' @ show_nat lineNum @ js msg"

text \<open>
  The body of the loop of \<open>parse\<close> for the line with number \<open>lineNum\<close>, on the document
  and the errors so far. \<open>parse\<close> starts with \<open>evidence = []\<close>, so the list that an
  evidence line appends to is always there.
\<close>

definition parse_line ::
  "nat \<Rightarrow> jsstring \<Rightarrow> PostLangAST \<times> jsstring list \<Rightarrow> PostLangAST \<times> jsstring list" where
  "parse_line lineNum raw st =
     (let ast = fst st; errs = snd st; line = trim raw in
      if line = [] \<or> startsWith line (js ''//'') then st
      else let firstChar = hd line in
      if firstChar = of_char CHR ''^'' then
        (case match_start limit_re line of
           None \<Rightarrow> st
         | Some m \<Rightarrow>
             (ast\<lparr>limits := Some (set_limit (toLowerCase (m ! 1)) (parseInt (m ! 2))
                 (case limits ast of None \<Rightarrow> no_limits | Some l \<Rightarrow> l))\<rparr>, errs))
      else if firstChar = of_char CHR ''#'' then
        (case match_start title_re line of
           None \<Rightarrow> (ast, errs @ [line_error lineNum '': Invalid title. Use # \"Your title\"''])
         | Some m \<Rightarrow> (ast\<lparr>title := Some (m ! 1)\<rparr>, errs))
      else if firstChar = of_char CHR ''!'' then
        (case match_start claim_re line of
           None \<Rightarrow> (ast, errs @ [line_error lineNum '': Invalid claim. Use ! \"Your claim\"''])
         | Some m \<Rightarrow> (ast\<lparr>claim := Some (m ! 1)\<rparr>, errs))
      else if firstChar = of_char CHR ''+'' then
        (case match_start evidence_re line of
           None \<Rightarrow>
             (ast, errs @ [line_error lineNum '': Invalid evidence. Use + value | \"context\"''])
         | Some m \<Rightarrow>
             (ast\<lparr>evidence := Some ((case evidence ast of None \<Rightarrow> [] | Some evs \<Rightarrow> evs) @
                 [\<lparr>ev_value = trim (m ! 1), ev_context = m ! 2\<rparr>])\<rparr>, errs))
      else if firstChar = of_char CHR ''>'' then
        (case match_start insight_re line of
           None \<Rightarrow>
             (ast, errs @ [line_error lineNum '': Invalid insight. Use > \"Your insight\"''])
         | Some m \<Rightarrow> (ast\<lparr>insight := Some (m ! 1)\<rparr>, errs))
      else if firstChar = of_char CHR ''?'' then
        (case match_start context_re line of
           None \<Rightarrow> st
         | Some m \<Rightarrow> (ast\<lparr>post_context := Some (m ! 1)\<rparr>, errs))
      else if firstChar = of_char CHR ''*'' then
        (case match_start credential_re line of
           None \<Rightarrow> st
         | Some m \<Rightarrow> (ast\<lparr>credential := Some (m ! 1)\<rparr>, errs))
      else if firstChar = of_char CHR ''@'' then
        (case match_start source_re line of
           None \<Rightarrow>
             (ast, errs @ [line_error lineNum
                '': Invalid source. Use @ \"Title\" | url | \"why this source is credible\"''])
         | Some m \<Rightarrow>
             (ast\<lparr>source := Some \<lparr>src_title = m ! 1, src_url = m ! 2, credibility = m ! 3\<rparr>\<rparr>,
              errs))
      else st)"

text \<open>The loop over the lines; \<open>i\<close> is the index of the first line of \<open>ls\<close>.\<close>

fun parse_lines ::
  "nat \<Rightarrow> jsstring list \<Rightarrow> PostLangAST \<times> jsstring list \<Rightarrow> PostLangAST \<times> jsstring list" where
  "parse_lines i [] st = st"
| "parse_lines i (l # ls) st = parse_lines (i + 1) ls (parse_line (i + 1) l st)"

definition empty_ast :: PostLangAST where
  "empty_ast =
     \<lparr>title = None, claim = None, evidence = Some [], insight = None, post_context = None,
      credential = None, source = None, limits = None\<rparr>"

definition parse :: "jsstring \<Rightarrow> PostLangAST \<times> jsstring list" where
  "parse src = parse_lines 0 (split_nl src) (empty_ast, [])"

section \<open>The validator\<close>

definition BANNED_PHRASES :: "jsstring list" where
  "BANNED_PHRASES =
     [js ''game-changer'', js ''game changer'', js ''revolutionary'', js ''groundbreaking'',
      js ''exciting'', js ''thrilled'', js ''delighted'', js ''proud to announce'',
      js ''thrilled to announce'', js ''excited to share'', js ''let me tell you'',
      js ''here's the thing'', js ''in today's world'', js ''in this day and age'',
      js ''at the end of the day'', js ''it goes without saying'', js ''needless to say'',
      js ''leverage'', js ''synergy'', js ''paradigm shift'', js ''disruptive'',
      js ''innovative solution'', js ''cutting-edge'', js ''state-of-the-art'',
      js ''best-in-class'', js ''world-class'', js ''next-level'', js ''deep dive'',
      js ''unpack'', js ''circle back'', js ''move the needle'']"

text \<open>\<open>limits = { ...DEFAULT_LIMITS, ...ast.limits }\<close>.\<close>

definition effective_limits :: "PostLangAST \<Rightarrow> PostLangLimits" where
  "effective_limits ast = spread_limits DEFAULT_LIMITS (limits ast)"

text \<open>\<open>`${what} exceeds ${limit} chars (has ${len})`\<close>.\<close>

definition exceeds_msg :: "jsstring \<Rightarrow> nat \<Rightarrow> nat \<Rightarrow> jsstring" where
  "exceeds_msg what limit len =
     what @ js '' exceeds '' @ show_nat limit @ js '' chars (has '' @ show_nat len @ js '')''"

text \<open>
  \<open>if (len > limit) push(`${what} exceeds ${limit} chars (has ${len})`)\<close>. The
  comparison with \<open>undefined\<close> is false, and so is the comparison with a number of
  \<open>2^53\<close> or more: no string is that long.
\<close>

definition limit_error :: "jsstring \<Rightarrow> limit_value \<Rightarrow> nat \<Rightarrow> jsstring list" where
  "limit_error what limit len =
     (case limit of
        Num k \<Rightarrow> (if len > k then [exceeds_msg what k len] else [])
      | Undefined \<Rightarrow> []
      | Big \<Rightarrow> [])"

text \<open>The required fields.\<close>

definition missing_errors :: "PostLangAST \<Rightarrow> jsstring list" where
  "missing_errors ast =
     (if \<not> truthy (title ast) then [js ''Missing # (title)''] else []) @
     (if \<not> truthy (claim ast) then [js ''Missing ! (claim)''] else []) @
     (if evidence ast = None \<or> length (the (evidence ast)) = 0
      then [js ''Missing + (evidence)''] else []) @
     (if \<not> truthy (insight ast) then [js ''Missing > (insight)''] else []) @
     (if source ast = None then [js ''Missing @ (source)''] else [])"

definition title_errors :: "PostLangLimits \<Rightarrow> PostLangAST \<Rightarrow> jsstring list" where
  "title_errors lim ast =
     (if truthy (title ast) then
        (let t = the (title ast) in
         limit_error (js ''#'') (the (lim_title lim)) (length t) @
         (if endsWith t (js ''?'') then [js ''# cannot be a question''] else []) @
         (if includes_str t (js ''!'') then [js ''# cannot contain exclamation marks'']
          else []))
      else [])"

definition claim_errors :: "PostLangLimits \<Rightarrow> PostLangAST \<Rightarrow> jsstring list" where
  "claim_errors lim ast =
     (if truthy (claim ast)
      then limit_error (js ''!'') (the (lim_claim lim)) (length (the (claim ast)))
      else [])"

text \<open>The loop over the evidence items; \<open>i\<close> is the index of the first item of the list.\<close>

fun evidence_item_errors :: "PostLangLimits \<Rightarrow> nat \<Rightarrow> evidence_item list \<Rightarrow> jsstring list" where
  "evidence_item_errors lim i [] = []"
| "evidence_item_errors lim i (ev # evs) =
     (let evText = ev_value ev @ js '' '' @ ev_context ev in
      limit_error (js ''+ item '' @ show_nat (i + 1)) (the (lim_evidence lim))
        (length evText)) @
     evidence_item_errors lim (i + 1) evs"

definition evidence_errors :: "PostLangLimits \<Rightarrow> PostLangAST \<Rightarrow> jsstring list" where
  "evidence_errors lim ast =
     (case evidence ast of
        None \<Rightarrow> []
      | Some evs \<Rightarrow>
          (if length evs > 5 then [js ''+ limited to 5 items maximum''] else []) @
          evidence_item_errors lim 0 evs)"

definition insight_errors :: "PostLangLimits \<Rightarrow> PostLangAST \<Rightarrow> jsstring list" where
  "insight_errors lim ast =
     (if truthy (insight ast)
      then limit_error (js ''>'') (the (lim_insight lim)) (length (the (insight ast)))
      else [])"

definition context_warnings :: "PostLangLimits \<Rightarrow> PostLangAST \<Rightarrow> jsstring list" where
  "context_warnings lim ast =
     (if truthy (post_context ast)
      then limit_error (js ''?'') (the (lim_context lim)) (length (the (post_context ast)))
      else [])"

text \<open>
  The text that the style rules scan: title, claim, insight, context and the context of
  every evidence item, the missing and the empty ones dropped, joined by spaces, in
  lower case.
\<close>

definition scanned_fields :: "PostLangAST \<Rightarrow> jsstring option list" where
  "scanned_fields ast =
     [title ast, claim ast, insight ast, post_context ast] @
     (case evidence ast of None \<Rightarrow> [] | Some evs \<Rightarrow> map (\<lambda>e. Some (ev_context e)) evs)"

definition allText :: "PostLangAST \<Rightarrow> jsstring" where
  "allText ast = toLowerCase (join (js '' '') (map the (filter truthy (scanned_fields ast))))"

definition banned_msg :: "jsstring \<Rightarrow> jsstring" where
  "banned_msg phrase = js ''Banned phrase: \"'' @ phrase @ js ''\"''"

definition banned_errors :: "jsstring \<Rightarrow> jsstring list" where
  "banned_errors text =
     concat (map (\<lambda>phrase. if includes_str text (toLowerCase phrase)
                             then [banned_msg phrase] else []) BANNED_PHRASES)"

definition exclamation_errors :: "jsstring \<Rightarrow> jsstring list" where
  "exclamation_errors text =
     (let exclamationCount = length (filter (\<lambda>c. c = of_char CHR ''!'') text) in
      if exclamationCount > 0
      then [js ''Exclamation marks not allowed (found '' @ show_nat exclamationCount @ js '')'']
      else [])"

text \<open>
  \<open>validate\<close>, with the \<open>lastIndex\<close> of \<open>EMOJI_REGEX\<close> before the call as its first
  argument: the errors, the warnings, and the \<open>lastIndex\<close> after the call.
\<close>

definition validate :: "nat \<Rightarrow> PostLangAST \<Rightarrow> (jsstring list \<times> jsstring list) \<times> nat" where
  "validate lastIndex ast =
     (let lim = effective_limits ast;
          emoji = emoji_test lastIndex (allText ast)
      in ((missing_errors ast @ title_errors lim ast @ claim_errors lim ast @
           evidence_errors lim ast @ insight_errors lim ast @
           (if fst emoji then [js ''Emojis are not allowed''] else []) @
           banned_errors (allText ast) @ exclamation_errors (allText ast),
           context_warnings lim ast),
          snd emoji))"

section \<open>The generator\<close>

text \<open>
  \<open>generate\<close> is called on a document that \<open>compile\<close> casts to \<open>PostLangAST\<close> without a
  check. On a document without evidence list or without source it reads a property of
  \<open>undefined\<close> and throws; a missing string is rendered as \<open>undefined\<close>.
\<close>

definition str_of :: "jsstring option \<Rightarrow> jsstring" where
  "str_of x = (case x of None \<Rightarrow> js ''undefined'' | Some s \<Rightarrow> s)"

definition scheme_re :: regex where
  "scheme_re = seqs [lit ''http'', Opt (Chr (of_char CHR ''s'')), lit ''://'']"

definition www_re :: regex where
  "www_re = lit ''www.''"

definition displayUrl :: "jsstring \<Rightarrow> jsstring" where
  "displayUrl url = remove_start www_re (remove_start scheme_re url)"

definition generate :: "PostLangAST \<Rightarrow> js_error + jsstring" where
  "generate ast =
     (case evidence ast of
        None \<Rightarrow> Inl TypeError
      | Some evs \<Rightarrow>
          (case source ast of
             None \<Rightarrow> Inl TypeError
           | Some src \<Rightarrow>
               Inr (join [10]
                 ([str_of (title ast) @ js ''.'', []] @
                  (if truthy (post_context ast) then [the (post_context ast), []] else []) @
                  [str_of (claim ast) @ js ''.'', []] @
                  (if length evs > 0
                   then [js ''Results:''] @
                        map (\<lambda>ev. js ''- '' @ ev_value ev @ js '' '' @ ev_context ev) evs @ [ [] ]
                   else []) @
                  [str_of (insight ast) @ js ''.'', []] @
                  (if truthy (credential ast)
                   then [js ''['' @ the (credential ast) @ js '']'', []] else []) @
                  [js ''Source: '' @ src_title src,
                   js ''['' @ credibility src @ js '']'',
                   displayUrl (src_url src)]))))"

section \<open>The pipeline\<close>

text \<open>
  \<open>compile\<close>, with the \<open>lastIndex\<close> of \<open>EMOJI_REGEX\<close> before the call as its first
  argument; it returns the result, or the exception thrown, and the \<open>lastIndex\<close> after
  the call.
\<close>

definition compile :: "nat \<Rightarrow> jsstring \<Rightarrow> (js_error + CompileResult) \<times> nat" where
  "compile lastIndex src =
     (let ast = fst (parse src); parseErrors = snd (parse src) in
      if length parseErrors > 0
      then (Inr \<lparr>success = False, output_text = None, errors = parseErrors, warnings = []\<rparr>,
            lastIndex)
      else
        (let v = validate lastIndex ast;
             validationErrors = fst (fst v); warns = snd (fst v); lastIndex' = snd v
         in if length validationErrors > 0
            then (Inr \<lparr>success = False, output_text = None, errors = validationErrors,
                       warnings = warns\<rparr>, lastIndex')
            else
              (case generate ast of
                 Inl e \<Rightarrow> (Inl e, lastIndex')
               | Inr out \<Rightarrow>
                   (let lim = effective_limits ast;
                        tooLong = limit_error (js ''Output'') (the (lim_total lim)) (length out)
                    in if tooLong \<noteq> []
                       then (Inr \<lparr>success = False, output_text = None, errors = tooLong,
                                  warnings = warns\<rparr>, lastIndex')
                       else (Inr \<lparr>success = True, output_text = Some out, errors = [],
                                  warnings = warns\<rparr>, lastIndex')))))"

section \<open>The analyzer\<close>

record structure_info =
  hasTitle :: bool
  hasClaim :: bool
  hasEvidence :: bool
  evidenceCount :: nat
  hasInsight :: bool
  hasSource :: bool

text \<open>The field \<open>warnings\<close> of the result of \<open>analyze\<close> is \<open>analysis_warnings\<close> here.\<close>

record AnalysisResult =
  valid :: bool
  score :: int
  struct :: structure_info
  issues :: "jsstring list"
  analysis_warnings :: "jsstring list"
  suggestions :: "jsstring list"

text \<open>
  The list \<open>BANNED\<close> of the analyzer is a second copy of the list of the compiler, with
  the same entries in the same order.
\<close>

definition BANNED :: "jsstring list" where
  "BANNED =
     [js ''game-changer'', js ''game changer'', js ''revolutionary'', js ''groundbreaking'',
      js ''exciting'', js ''thrilled'', js ''delighted'', js ''proud to announce'',
      js ''thrilled to announce'', js ''excited to share'', js ''let me tell you'',
      js ''here's the thing'', js ''in today's world'', js ''in this day and age'',
      js ''at the end of the day'', js ''it goes without saying'', js ''needless to say'',
      js ''leverage'', js ''synergy'', js ''paradigm shift'', js ''disruptive'',
      js ''innovative solution'', js ''cutting-edge'', js ''state-of-the-art'',
      js ''best-in-class'', js ''world-class'', js ''next-level'', js ''deep dive'',
      js ''unpack'', js ''circle back'', js ''move the needle'']"

text \<open>\<open>/\d+%|\d+x|\d+\.\d+/\<close>\<close>

definition evidencePattern :: regex where
  "evidencePattern =
     Alt (seqs [Many1 is_digit, Chr (of_char CHR ''%'')])
       (Alt (seqs [Many1 is_digit, Chr (of_char CHR ''x'')])
          (seqs [Many1 is_digit, Chr (of_char CHR ''.''), Many1 is_digit]))"

text \<open>
  \<open>bulletPattern\<close>: a character of the class, then white space, at the start. The class
  of the source file holds the hyphen, the three characters U+00E2, U+20AC and U+00A2,
  and the asterisk.
\<close>

definition bullet_class :: "code_unit \<Rightarrow> bool" where
  "bullet_class c \<longleftrightarrow> c = of_char CHR ''-'' \<or> c = 226 \<or> c = 8364 \<or> c = 162 \<or> c = of_char CHR ''*''"

definition bulletPattern :: regex where
  "bulletPattern = seqs [Cls bullet_class, Cls is_space]"

text \<open>\<open>/https?:\/\/|arxiv\.org|github\.com|Source:/i\<close>\<close>

definition urlPattern :: regex where
  "urlPattern =
     Alt (seqs [liti ''http'', Opt (ChrI (of_char CHR ''s'')), liti ''://''])
       (Alt (liti ''arxiv.org'') (Alt (liti ''github.com'') (liti ''Source:'')))"

text \<open>The lines of the text that are not blank.\<close>

definition text_lines :: "jsstring \<Rightarrow> jsstring list" where
  "text_lines text = filter (\<lambda>l. trim l \<noteq> []) (split_nl text)"

text \<open>The test of the loop that counts evidence lines.\<close>

definition is_evidence_line :: "jsstring \<Rightarrow> bool" where
  "is_evidence_line line \<longleftrightarrow>
     test_anywhere evidencePattern line \<or> test_start bulletPattern (trim line)"

text \<open>
  What one check of \<open>analyze\<close> adds: issues, warnings, suggestions, and the points it
  takes off the score.
\<close>

type_synonym findings = "jsstring list \<times> jsstring list \<times> jsstring list \<times> int"

definition no_findings :: findings where
  "no_findings = ([], [], [], 0)"

fun add_findings :: "findings \<Rightarrow> findings \<Rightarrow> findings" where
  "add_findings (i1, w1, s1, p1) (i2, w2, s2, p2) = (i1 @ i2, w1 @ w2, s1 @ s2, p1 + p2)"

definition title_check :: "jsstring list \<Rightarrow> findings" where
  "title_check lines =
     (if length lines > 0 then
        (let firstLine = trim (hd lines) in
         if length firstLine > 0 \<and> length firstLine \<le> 100 then no_findings
         else if length firstLine > 100
         then ([js ''First line too long for a title (>100 chars)''], [], [], 10)
         else no_findings)
      else ([js ''No title detected''], [], [], 15))"

definition evidence_check :: "nat \<Rightarrow> findings" where
  "evidence_check count =
     (if count = 0
      then ([js ''No evidence/data points detected''], [],
            [js ''Add specific numbers or percentages to support claims''], 20)
      else if count < 2
      then ([], [js ''Only 1 evidence point - consider adding more''], [], 5)
      else no_findings)"

definition source_check :: "bool \<Rightarrow> findings" where
  "source_check found =
     (if \<not> found
      then ([js ''No source/attribution detected''], [], [js ''Add a source URL or citation''], 15)
      else no_findings)"

definition claim_check :: "jsstring list \<Rightarrow> findings" where
  "claim_check lines =
     (if length lines \<ge> 2 then no_findings
      else ([js ''Post too short - no clear claim detected''], [], [], 10))"

definition nonTagLines :: "jsstring list \<Rightarrow> jsstring list" where
  "nonTagLines lines =
     filter (\<lambda>l. \<not> startsWith l (js ''#'') \<and> \<not> test_anywhere urlPattern l) lines"

definition insight_check :: "jsstring list \<Rightarrow> findings" where
  "insight_check lines =
     (if length (nonTagLines lines) \<ge> 3 then no_findings
      else ([], [js ''No clear insight/takeaway detected''],
            [js ''Add a concluding insight before the source''], 5))"

definition banned_check :: "jsstring \<Rightarrow> findings" where
  "banned_check lowerText =
     foldl add_findings no_findings
       (map (\<lambda>phrase. if includes_str lowerText phrase
                        then ([js ''Contains banned phrase: \"'' @ phrase @ js ''\"''], [], [], 10)
                        else no_findings) BANNED)"

definition emoji_check :: "bool \<Rightarrow> findings" where
  "emoji_check found = (if found then ([js ''Contains emojis''], [], [], 10) else no_findings)"

definition exclamation_check :: "jsstring \<Rightarrow> findings" where
  "exclamation_check text =
     (let exclamationCount = length (filter (\<lambda>c. c = of_char CHR ''!'') text) in
      if exclamationCount > 0
      then ([js ''Contains '' @ show_nat exclamationCount @ js '' exclamation mark(s)''], [], [],
            int exclamationCount * 5)
      else no_findings)"

definition question_check :: "jsstring list \<Rightarrow> findings" where
  "question_check lines =
     (if lines \<noteq> [] \<and> endsWith (trim (hd lines)) (js ''?'')
      then ([js ''Title is a question (avoid clickbait)''], [], [], 10)
      else no_findings)"

definition length_check :: "jsstring \<Rightarrow> findings" where
  "length_check text =
     (if length text > 1300
      then ([], [js ''Post is long ('' @ show_nat (length text) @ js '' chars) - consider trimming''],
            [], 5)
      else no_findings)"

text \<open>
  \<open>analyze\<close>, with the \<open>lastIndex\<close> of the analyzer's \<open>EMOJI_RE\<close> (an object of its own,
  with the same pattern and flags as \<open>EMOJI_REGEX\<close>) before the call as its first
  argument. The checks run in the order of the source; the score starts at 100 and is
  clamped at the end.
\<close>

definition analyze :: "nat \<Rightarrow> jsstring \<Rightarrow> AnalysisResult \<times> nat" where
  "analyze lastIndex text =
     (let lines = text_lines text;
          lowerText = toLowerCase text;
          count = length (filter is_evidence_line lines);
          found_source = test_anywhere urlPattern text;
          emoji = emoji_test lastIndex text;
          f = foldl add_findings no_findings
                [title_check lines, evidence_check count, source_check found_source,
                 claim_check lines, insight_check lines, banned_check lowerText,
                 emoji_check (fst emoji), exclamation_check text, question_check lines,
                 length_check text]
      in (\<lparr>valid = (length (fst f) = 0),
           score = max 0 (min 100 (100 - snd (snd (snd f)))),
           struct =
             \<lparr>hasTitle = (length lines > 0 \<and> length (trim (hd lines)) > 0 \<and>
                          length (trim (hd lines)) \<le> 100),
              hasClaim = (length lines \<ge> 2),
              hasEvidence = (count > 0),
              evidenceCount = count,
              hasInsight = (length (nonTagLines lines) \<ge> 3),
              hasSource = found_source\<rparr>,
           issues = fst f,
           analysis_warnings = fst (snd f),
           suggestions = fst (snd (snd f))\<rparr>,
          snd emoji))"

section \<open>Limit directives\<close>




section \<open>Views of the result of the validator\<close>

text \<open>The limits that a document carries, and the document with another context limit.\<close>

definition own_limits :: "PostLangAST \<Rightarrow> PostLangLimits" where
  "own_limits ast = (case limits ast of None \<Rightarrow> no_limits | Some l \<Rightarrow> l)"

definition with_context_limit :: "limit_value option \<Rightarrow> PostLangAST \<Rightarrow> PostLangAST" where
  "with_context_limit v ast = ast\<lparr>limits := Some ((own_limits ast)\<lparr>lim_context := v\<rparr>)\<rparr>"


definition validation_errors :: "nat \<Rightarrow> PostLangAST \<Rightarrow> jsstring list" where
  "validation_errors lastIndex ast = fst (fst (validate lastIndex ast))"

definition validation_warnings :: "nat \<Rightarrow> PostLangAST \<Rightarrow> jsstring list" where
  "validation_warnings lastIndex ast = snd (fst (validate lastIndex ast))"

text \<open>The errors of the style rules: emoji, banned phrases, exclamation marks.\<close>

definition style_errors :: "nat \<Rightarrow> PostLangAST \<Rightarrow> jsstring list" where
  "style_errors lastIndex ast =
     (if fst (emoji_test lastIndex (allText ast)) then [js ''Emojis are not allowed''] else []) @
     banned_errors (allText ast) @ exclamation_errors (allText ast)"

section \<open>Sample documents\<close>

text \<open>A post whose context is longer than the limit that its first line sets.\<close>

definition long_context_source :: jsstring where
  "long_context_source =
     js ''^ context 5'' @ [10] @ js ''# \"Title\"'' @ [10] @ js ''? \"Some background\"'' @ [10] @
     js ''! \"Claim\"'' @ [10] @ js ''+ 10% | \"improvement\"'' @ [10] @ js ''> \"Insight\"'' @ [10] @
     js ''@ \"Source\" | https://example.com | \"Primary source\"''"

definition long_context_ast :: PostLangAST where
  "long_context_ast =
     \<lparr>title = Some (js ''Title''), claim = Some (js ''Claim''),
      evidence = Some [\<lparr>ev_value = js ''10%'', ev_context = js ''improvement''\<rparr>],
      insight = Some (js ''Insight''), post_context = Some (js ''Some background''),
      credential = None,
      source = Some \<lparr>src_title = js ''Source'', src_url = js ''https://example.com'',
                      credibility = js ''Primary source''\<rparr>,
      limits = Some (no_limits\<lparr>lim_context := Some (Num 5)\<rparr>)\<rparr>"

definition long_context_output :: jsstring where
  "long_context_output =
     js ''Title.'' @ [10, 10] @ js ''Some background'' @ [10, 10] @ js ''Claim.'' @ [10, 10] @
     js ''Results:'' @ [10] @ js ''- 10% improvement'' @ [10, 10] @ js ''Insight.'' @ [10, 10] @
     js ''Source: Source'' @ [10] @ js ''[Primary source]'' @ [10] @ js ''example.com''"

definition sample_item :: evidence_item where
  "sample_item = \<lparr>ev_value = js ''10%'', ev_context = js ''improvement''\<rparr>"

text \<open>
  The minimal post with a source line of title and URL only, the same post with a
  credibility segment, the document that the latter parses to and its rendering.
\<close>

definition minimal_source :: jsstring where
  "minimal_source =
     js ''# \"Title\"'' @ [10] @ js ''! \"Claim\"'' @ [10] @ js ''+ 10% | \"improvement\"'' @ [10] @
     js ''> \"Insight\"'' @ [10] @ js ''@ \"Source\" | https://example.com''"

definition credible_source :: jsstring where
  "credible_source = minimal_source @ js '' | \"Primary source\"''"

definition minimal_ast :: PostLangAST where
  "minimal_ast =
     \<lparr>title = Some (js ''Title''), claim = Some (js ''Claim''),
      evidence = Some [\<lparr>ev_value = js ''10%'', ev_context = js ''improvement''\<rparr>],
      insight = Some (js ''Insight''), post_context = None, credential = None,
      source = Some \<lparr>src_title = js ''Source'', src_url = js ''https://example.com'',
                      credibility = js ''Primary source''\<rparr>,
      limits = None\<rparr>"

definition minimal_output :: jsstring where
  "minimal_output =
     js ''Title.'' @ [10, 10] @ js ''Claim.'' @ [10, 10] @ js ''Results:'' @ [10] @
     js ''- 10% improvement'' @ [10, 10] @ js ''Insight.'' @ [10, 10] @
     js ''Source: Source'' @ [10] @ js ''[Primary source]'' @ [10] @ js ''example.com''"

text \<open>A post with the emoji U+2600 in its title.\<close>

definition emoji_source :: jsstring where
  "emoji_source =
     js ''# \"Sun '' @ [9728] @ js '' days\"'' @ [10] @ js ''! \"Claim\"'' @ [10] @
     js ''+ 10% | \"improvement\"'' @ [10] @ js ''> \"Insight\"'' @ [10] @
     js ''@ \"Source\" | https://example.com | \"Primary source\"''"

definition emoji_ast :: PostLangAST where
  "emoji_ast = minimal_ast\<lparr>title := Some (js ''Sun '' @ [9728] @ js '' days'')\<rparr>"

definition emoji_output :: jsstring where
  "emoji_output =
     js ''Sun '' @ [9728] @ js '' days.'' @ [10, 10] @ js ''Claim.'' @ [10, 10] @
     js ''Results:'' @ [10] @ js ''- 10% improvement'' @ [10, 10] @ js ''Insight.'' @ [10, 10] @
     js ''Source: Source'' @ [10] @ js ''[Primary source]'' @ [10] @ js ''example.com''"

text \<open>
  Four lines for the analyzer: two with the bullets \<open>-\<close> and \<open>*\<close>, two with the bullet
  U+2022, the second of them with a percentage.
\<close>

definition bullet_sample :: jsstring where
  "bullet_sample =
     js ''- one'' @ [10] @ js ''* two'' @ [10] @ [8226] @ js '' three'' @ [10] @
     [8226] @ js '' 10% four''"





section \<open>Evaluation\<close>

text \<open>
  The equation of \<open>show_nat\<close> is applied to numerals only. The definitions that a
  concrete run unfolds follow.
\<close>

declare show_nat.simps [simp del]

lemmas str_eval = js_def is_space_def is_word_def is_digit_def trim_def toLowerCase_def
  lower_unit_def canon_def endsWith_def show_nat.simps

lemmas re_eval = quoted_def limit_re_def title_re_def claim_re_def evidence_re_def
  insight_re_def context_re_def credential_re_def source_re_def match_start_def
  remove_start_def test_start_def lit_def liti_def

lemmas parse_eval = parse_def parse_line_def line_error_def set_limit_def parseInt_def
  decimal_def empty_ast_def no_limits_def Let_def

lemmas limits_eval = effective_limits_def spread_limits_def DEFAULT_LIMITS_def override_def

lemmas validate_eval = validate_def limits_eval exceeds_msg_def limit_error_def missing_errors_def
  title_errors_def claim_errors_def evidence_errors_def insight_errors_def
  context_warnings_def scanned_fields_def allText_def banned_msg_def banned_errors_def
  BANNED_PHRASES_def exclamation_errors_def emoji_test_def is_emoji_def

lemmas generate_eval = generate_def str_of_def scheme_re_def www_re_def displayUrl_def

lemmas analyze_eval = analyze_def text_lines_def is_evidence_line_def evidencePattern_def
  bulletPattern_def bullet_class_def urlPattern_def no_findings_def title_check_def
  evidence_check_def source_check_def claim_check_def nonTagLines_def insight_check_def
  banned_check_def BANNED_def emoji_check_def exclamation_check_def question_check_def
  length_check_def emoji_test_def is_emoji_def

text \<open>
  Evaluation applies a function to each element of a list only after the list itself
  is known.
\<close>

lemma map_eval_cong: "xs = ys \<Longrightarrow> map f xs = map f ys"
  by simp

lemma filter_eval_cong: "xs = ys \<Longrightarrow> filter P xs = filter P ys"
  by simp

section \<open>Parse errors end the compilation\<close>

lemma parse_unquoted_title:
  "parse (js ''# Title'') = (empty_ast, [js ''Line 1: Invalid title. Use # \"Your title\"''])"
  by (simp add: str_eval re_eval parse_eval cong: map_eval_cong)

text \<open>
  C4. For every source string, if \<open>parse\<close> returns a non-empty error list then \<open>compile\<close>
  returns \<open>success = false\<close> with exactly those parse errors and an empty warning list,
  and \<open>validate\<close> is not run: the \<open>lastIndex\<close> of the emoji pattern, which every run
  of \<open>validate\<close> sets, is left as it was, and no validation error is in the result.
\<close>

theorem compile_parse_errors:
  assumes "snd (parse src) \<noteq> []"
  shows "compile lastIndex src =
           (Inr \<lparr>success = False, output_text = None, errors = snd (parse src), warnings = []\<rparr>,
            lastIndex)"
  using assms by (simp add: compile_def Let_def)

theorem compile_parse_errors_witness:
  "snd (parse (js ''# Title'')) \<noteq> [] \<and>
   compile 7 (js ''# Title'') =
     (Inr \<lparr>success = False, output_text = None,
           errors = [js ''Line 1: Invalid title. Use # \"Your title\"''], warnings = []\<rparr>, 7)"
proof -
  have ne: "snd (parse (js ''# Title'')) \<noteq> []"
    by (simp add: parse_unquoted_title)
  show ?thesis
    using ne compile_parse_errors [OF ne, of 7] by (simp add: parse_unquoted_title)
qed

section \<open>The shape of the validation errors\<close>

lemma validation_errors_eq:
  "validation_errors li ast =
     missing_errors ast @ title_errors (effective_limits ast) ast @
     claim_errors (effective_limits ast) ast @ evidence_errors (effective_limits ast) ast @
     insight_errors (effective_limits ast) ast @ style_errors li ast"
  by (simp add: validation_errors_def validate_def style_errors_def Let_def)

lemma missing_errors_mem:
  "e \<in> set (missing_errors ast) \<longleftrightarrow>
     e = js ''Missing # (title)'' \<and> \<not> truthy (title ast) \<or>
     e = js ''Missing ! (claim)'' \<and> \<not> truthy (claim ast) \<or>
     e = js ''Missing + (evidence)'' \<and> (evidence ast = None \<or> evidence ast = Some []) \<or>
     e = js ''Missing > (insight)'' \<and> \<not> truthy (insight ast) \<or>
     e = js ''Missing @ (source)'' \<and> source ast = None"
  by (auto simp: missing_errors_def)

lemma missing_errors_hd: "e \<in> set (missing_errors ast) \<Longrightarrow> take 1 e = js ''M''"
  by (auto simp: missing_errors_mem js_def)

lemma title_errors_hd: "e \<in> set (title_errors lim ast) \<Longrightarrow> take 1 e = js ''#''"
  by (auto simp: title_errors_def limit_error_def exceeds_msg_def js_def Let_def
      split: if_splits limit_value.splits)

lemma claim_errors_hd: "e \<in> set (claim_errors lim ast) \<Longrightarrow> take 1 e = js ''!''"
  by (auto simp: claim_errors_def limit_error_def exceeds_msg_def js_def
      split: if_splits limit_value.splits)

lemma evidence_item_errors_hd:
  "e \<in> set (evidence_item_errors lim i evs) \<Longrightarrow> take 3 e = js ''+ i''"
  by (induction evs arbitrary: i)
    (auto simp: limit_error_def exceeds_msg_def js_def Let_def split: if_splits limit_value.splits)

lemma evidence_errors_mem:
  "e \<in> set (evidence_errors lim ast) \<Longrightarrow>
     e = js ''+ limited to 5 items maximum'' \<and> (\<exists>evs. evidence ast = Some evs \<and> 5 < length evs) \<or>
     take 3 e = js ''+ i''"
  by (cases "evidence ast") (auto simp: evidence_errors_def split: if_splits dest: evidence_item_errors_hd)

lemma insight_errors_hd: "e \<in> set (insight_errors lim ast) \<Longrightarrow> take 1 e = js ''>''"
  by (auto simp: insight_errors_def limit_error_def exceeds_msg_def js_def
      split: if_splits limit_value.splits)

lemma banned_errors_mem:
  "e \<in> set (banned_errors text) \<longleftrightarrow>
     (\<exists>p \<in> set BANNED_PHRASES. includes_str text (toLowerCase p) \<and> e = banned_msg p)"
  by (auto simp: banned_errors_def split: if_splits)

lemma style_errors_hd:
  "e \<in> set (style_errors li ast) \<Longrightarrow> take 1 e = js ''E'' \<or> take 1 e = js ''B''"
  by (auto simp: style_errors_def banned_errors_mem banned_msg_def exclamation_errors_def js_def Let_def
      split: if_splits)

lemma take_first: "take n e = x # xs \<Longrightarrow> take 1 e = [x]"
  by (cases e; cases n) auto

lemma evidence_errors_hd: "e \<in> set (evidence_errors lim ast) \<Longrightarrow> take 1 e = js ''+''"
proof -
  assume "e \<in> set (evidence_errors lim ast)"
  then have "e = js ''+ limited to 5 items maximum'' \<or> take 3 e = js ''+ i''"
    using evidence_errors_mem by blast
  then show ?thesis
    by (auto simp: js_def dest: take_first)
qed

lemma later_errors_hd:
  assumes "e \<in> set (title_errors lim ast @ claim_errors lim ast @ evidence_errors lim ast @
                     insight_errors lim ast @ style_errors li ast)"
  shows "take 1 e \<in> {js ''#'', js ''!'', js ''+'', js ''>'', js ''E'', js ''B''}"
  using assms title_errors_hd claim_errors_hd evidence_errors_hd insight_errors_hd style_errors_hd
  by fastforce

lemma missing_message_mem:
  assumes "take 1 m = js ''M''"
  shows "m \<in> set (validation_errors li ast) \<longleftrightarrow> m \<in> set (missing_errors ast)"
proof -
  have "m \<notin> set (title_errors (effective_limits ast) ast @ claim_errors (effective_limits ast) ast @
                  evidence_errors (effective_limits ast) ast @
                  insight_errors (effective_limits ast) ast @ style_errors li ast)"
    using later_errors_hd [of m] assms by (auto simp: js_def)
  then show ?thesis
    by (auto simp: validation_errors_eq)
qed

text \<open>
  C8. For every document, \<open>validate\<close> reports the error \<open>Missing <symbol> (<name>)\<close> of a
  required field exactly when that field is absent, and never for a field that is
  present. Absent is what the code tests: a title, claim or insight that is undefined or
  the empty string, an evidence list that is undefined or has no item, a source that is
  undefined. (\<open>parse\<close> never stores an empty string.)
\<close>

theorem missing_field_errors:
  "(js ''Missing # (title)'' \<in> set (validation_errors li ast) \<longleftrightarrow>
      title ast = None \<or> title ast = Some []) \<and>
   (js ''Missing ! (claim)'' \<in> set (validation_errors li ast) \<longleftrightarrow>
      claim ast = None \<or> claim ast = Some []) \<and>
   (js ''Missing + (evidence)'' \<in> set (validation_errors li ast) \<longleftrightarrow>
      evidence ast = None \<or> evidence ast = Some []) \<and>
   (js ''Missing > (insight)'' \<in> set (validation_errors li ast) \<longleftrightarrow>
      insight ast = None \<or> insight ast = Some []) \<and>
   (js ''Missing @ (source)'' \<in> set (validation_errors li ast) \<longleftrightarrow> source ast = None)"
proof -
  have t: "\<And>x. \<not> truthy x \<longleftrightarrow> x = None \<or> x = Some []"
    by (case_tac x) auto
  have 1: "js ''Missing # (title)'' \<in> set (validation_errors li ast) \<longleftrightarrow>
             title ast = None \<or> title ast = Some []"
    by (subst missing_message_mem) (auto simp: missing_errors_mem t js_def)
  have 2: "js ''Missing ! (claim)'' \<in> set (validation_errors li ast) \<longleftrightarrow>
             claim ast = None \<or> claim ast = Some []"
    by (subst missing_message_mem) (auto simp: missing_errors_mem t js_def)
  have 3: "js ''Missing + (evidence)'' \<in> set (validation_errors li ast) \<longleftrightarrow>
             evidence ast = None \<or> evidence ast = Some []"
    by (subst missing_message_mem) (auto simp: missing_errors_mem t js_def)
  have 4: "js ''Missing > (insight)'' \<in> set (validation_errors li ast) \<longleftrightarrow>
             insight ast = None \<or> insight ast = Some []"
    by (subst missing_message_mem) (auto simp: missing_errors_mem t js_def)
  have 5: "js ''Missing @ (source)'' \<in> set (validation_errors li ast) \<longleftrightarrow> source ast = None"
    by (subst missing_message_mem) (auto simp: missing_errors_mem t js_def)
  from 1 2 3 4 5 show ?thesis
    by blast
qed

lemma limited_message_mem:
  "js ''+ limited to 5 items maximum'' \<in> set (validation_errors li ast) \<longleftrightarrow>
     (\<exists>evs. evidence ast = Some evs \<and> 5 < length evs)"
proof
  assume "js ''+ limited to 5 items maximum'' \<in> set (validation_errors li ast)"
  then consider
      "js ''+ limited to 5 items maximum'' \<in> set (missing_errors ast)"
    | "js ''+ limited to 5 items maximum'' \<in> set (title_errors (effective_limits ast) ast)"
    | "js ''+ limited to 5 items maximum'' \<in> set (claim_errors (effective_limits ast) ast)"
    | "js ''+ limited to 5 items maximum'' \<in> set (evidence_errors (effective_limits ast) ast)"
    | "js ''+ limited to 5 items maximum'' \<in> set (insight_errors (effective_limits ast) ast)"
    | "js ''+ limited to 5 items maximum'' \<in> set (style_errors li ast)"
    by (auto simp: validation_errors_eq)
  then show "\<exists>evs. evidence ast = Some evs \<and> 5 < length evs"
  proof cases
    case 1
    then show ?thesis using missing_errors_hd by (fastforce simp: js_def)
  next
    case 2
    then show ?thesis using title_errors_hd by (fastforce simp: js_def)
  next
    case 3
    then show ?thesis using claim_errors_hd by (fastforce simp: js_def)
  next
    case 4
    then show ?thesis using evidence_errors_mem by (fastforce simp: js_def)
  next
    case 5
    then show ?thesis using insight_errors_hd by (fastforce simp: js_def)
  next
    case 6
    then show ?thesis using style_errors_hd by (fastforce simp: js_def)
  qed
next
  assume "\<exists>evs. evidence ast = Some evs \<and> 5 < length evs"
  then have "js ''+ limited to 5 items maximum'' \<in> set (evidence_errors (effective_limits ast) ast)"
    by (auto simp: evidence_errors_def)
  then show "js ''+ limited to 5 items maximum'' \<in> set (validation_errors li ast)"
    by (simp add: validation_errors_eq)
qed

text \<open>
  C6. \<open>validate\<close> reports \<open>+ limited to 5 items maximum\<close> exactly when the document has
  more than five evidence items, so not for exactly five and always for six or more; it
  reports \<open>Missing + (evidence)\<close> exactly when there is no item; and the bound of five
  does not depend on the limits: whatever limits the document carries, the count error
  is reported for the same documents.
\<close>

theorem evidence_count_rule:
  "(js ''+ limited to 5 items maximum'' \<in> set (validation_errors li ast) \<longleftrightarrow>
      (\<exists>evs. evidence ast = Some evs \<and> 5 < length evs)) \<and>
   (js ''Missing + (evidence)'' \<in> set (validation_errors li ast) \<longleftrightarrow>
      evidence ast = None \<or> evidence ast = Some []) \<and>
   (js ''+ limited to 5 items maximum'' \<in> set (validation_errors li (ast\<lparr>limits := l\<rparr>)) \<longleftrightarrow>
      js ''+ limited to 5 items maximum'' \<in> set (validation_errors li ast))"
proof -
  have "js ''Missing + (evidence)'' \<in> set (validation_errors li ast) \<longleftrightarrow>
          evidence ast = None \<or> evidence ast = Some []"
    by (subst missing_message_mem) (auto simp: missing_errors_mem js_def)
  then show ?thesis
    by (simp add: limited_message_mem)
qed

lemma validation_warnings_eq:
  "validation_warnings li ast = context_warnings (effective_limits ast) ast"
  by (simp add: validation_warnings_def validate_def Let_def)

lemma context_message_not_error:
  assumes "take 1 w = js ''?''"
  shows "w \<notin> set (validation_errors li ast)"
proof
  assume "w \<in> set (validation_errors li ast)"
  then have "w \<in> set (missing_errors ast) \<or>
             w \<in> set (title_errors (effective_limits ast) ast @ claim_errors (effective_limits ast) ast @
                  evidence_errors (effective_limits ast) ast @
                  insight_errors (effective_limits ast) ast @ style_errors li ast)"
    by (auto simp: validation_errors_eq)
  then show False
    using missing_errors_hd [of w ast] later_errors_hd [of w "effective_limits ast" ast li] assms
    by (auto simp: js_def)
qed

lemma validate_ok_generate:
  assumes "validation_errors li ast = []"
  shows "\<exists>out. generate ast = Inr out"
proof -
  have "missing_errors ast = []"
    using assms by (simp add: validation_errors_eq)
  then have "evidence ast \<noteq> None \<and> source ast \<noteq> None"
    by (auto simp: missing_errors_def split: if_splits)
  then show ?thesis
    by (auto simp: generate_def)
qed

text \<open>The cast in \<open>compile\<close> is safe: \<open>compile\<close> never throws.\<close>

lemma compile_no_throw: "\<exists>r. fst (compile li src) = Inr r"
proof (cases "snd (parse src) = [] \<and> validation_errors li (fst (parse src)) = []")
  case True
  then obtain out where "generate (fst (parse src)) = Inr out"
    using validate_ok_generate by blast
  then show ?thesis
    by (simp add: compile_def Let_def)
next
  case False
  then show ?thesis
    by (auto simp: compile_def Let_def validation_errors_def)
qed

section \<open>The rules and the limits\<close>

text \<open>Each length rule reads its own limit and nothing else of the limits.\<close>

lemma spread_no_limits: "spread_limits a (Some no_limits) = spread_limits a None"
  by (simp add: spread_limits_def no_limits_def override_def)

lemma effective_limits_some:
  "effective_limits (ast\<lparr>limits := Some (case limits ast of None \<Rightarrow> no_limits | Some l \<Rightarrow> l)\<rparr>) =
   effective_limits ast"
  by (simp add: effective_limits_def spread_no_limits split: option.splits)

lemma effective_limits_own: "effective_limits (ast\<lparr>limits := Some (own_limits ast)\<rparr>) = effective_limits ast"
  by (simp add: own_limits_def effective_limits_some)

lemma title_errors_limits:
  "lim_title lim' = lim_title lim \<Longrightarrow> title_errors lim' (ast\<lparr>limits := x\<rparr>) = title_errors lim ast"
  by (simp add: title_errors_def Let_def)

lemma claim_errors_limits:
  "lim_claim lim' = lim_claim lim \<Longrightarrow> claim_errors lim' (ast\<lparr>limits := x\<rparr>) = claim_errors lim ast"
  by (simp add: claim_errors_def)

lemma evidence_item_errors_limits:
  "lim_evidence lim' = lim_evidence lim \<Longrightarrow>
   evidence_item_errors lim' i evs = evidence_item_errors lim i evs"
  by (induction evs arbitrary: i) auto

lemma evidence_errors_limits:
  assumes "lim_evidence lim' = lim_evidence lim"
  shows "evidence_errors lim' (ast\<lparr>limits := x\<rparr>) = evidence_errors lim ast"
  by (cases "evidence ast")
    (simp_all add: evidence_errors_def evidence_item_errors_limits [OF assms])

lemma insight_errors_limits:
  "lim_insight lim' = lim_insight lim \<Longrightarrow>
   insight_errors lim' (ast\<lparr>limits := x\<rparr>) = insight_errors lim ast"
  by (simp add: insight_errors_def)


lemma missing_errors_limits: "missing_errors (ast\<lparr>limits := x\<rparr>) = missing_errors ast"
  by (simp add: missing_errors_def)

lemma allText_limits: "allText (ast\<lparr>limits := x\<rparr>) = allText ast"
  by (simp add: allText_def scanned_fields_def)


text \<open>
  The errors of \<open>validate\<close>, and the state it leaves, depend on the limits of the
  document only through the limits of title, claim, evidence and insight.
\<close>

lemma validation_errors_limits:
  assumes "lim_title (effective_limits (ast\<lparr>limits := x\<rparr>)) = lim_title (effective_limits ast)"
    and "lim_claim (effective_limits (ast\<lparr>limits := x\<rparr>)) = lim_claim (effective_limits ast)"
    and "lim_evidence (effective_limits (ast\<lparr>limits := x\<rparr>)) = lim_evidence (effective_limits ast)"
    and "lim_insight (effective_limits (ast\<lparr>limits := x\<rparr>)) = lim_insight (effective_limits ast)"
  shows "validation_errors li (ast\<lparr>limits := x\<rparr>) = validation_errors li ast \<and>
         snd (validate li (ast\<lparr>limits := x\<rparr>)) = snd (validate li ast)"
  by (simp add: validation_errors_def validate_def Let_def title_errors_limits [OF assms(1)]
      claim_errors_limits [OF assms(2)] evidence_errors_limits [OF assms(3)]
      insight_errors_limits [OF assms(4)] missing_errors_limits allText_limits)

lemma effective_limits_context:
  "effective_limits (with_context_limit v ast) =
   (effective_limits ast)\<lparr>lim_context := override (lim_context DEFAULT_LIMITS) v\<rparr>"
proof -
  have "effective_limits (with_context_limit v ast) =
        (effective_limits (ast\<lparr>limits := Some (own_limits ast)\<rparr>))
          \<lparr>lim_context := override (lim_context DEFAULT_LIMITS) v\<rparr>"
    by (simp add: with_context_limit_def effective_limits_def spread_limits_def)
  then show ?thesis
    by (simp add: effective_limits_own)
qed

lemma validation_errors_context_limit:
  "validation_errors li (with_context_limit v ast) = validation_errors li ast \<and>
   snd (validate li (with_context_limit v ast)) = snd (validate li ast)"
proof -
  have e: "effective_limits (ast\<lparr>limits := Some ((own_limits ast)\<lparr>lim_context := v\<rparr>)\<rparr>) =
           (effective_limits ast)\<lparr>lim_context := override (lim_context DEFAULT_LIMITS) v\<rparr>"
    using effective_limits_context [of v ast] by (simp add: with_context_limit_def)
  show ?thesis
    unfolding with_context_limit_def
    by (rule validation_errors_limits) (simp_all add: e)
qed

lemma context_fits:
  assumes "post_context ast = Some c"
  shows "validation_warnings li (with_context_limit (Some (Num (length c))) ast) = []"
proof -
  have "post_context (with_context_limit (Some (Num (length c))) ast) = Some c"
    using assms by (simp add: with_context_limit_def)
  then show ?thesis
    by (simp add: validation_warnings_eq effective_limits_context context_warnings_def
        limit_error_def override_def)
qed

text \<open>What \<open>compile\<close> returns for a source that parses and validates.\<close>

lemma compile_valid:
  assumes "parse src = (ast, [])" and "validation_errors li ast = []" and "generate ast = Inr out"
  shows "compile li src =
           (if limit_error (js ''Output'') (the (lim_total (effective_limits ast))) (length out) \<noteq> []
            then (Inr \<lparr>success = False, output_text = None,
                       errors = limit_error (js ''Output'') (the (lim_total (effective_limits ast)))
                                  (length out),
                       warnings = validation_warnings li ast\<rparr>, snd (validate li ast))
            else (Inr \<lparr>success = True, output_text = Some out, errors = [],
                       warnings = validation_warnings li ast\<rparr>, snd (validate li ast)))"
  using assms by (simp add: compile_def Let_def validation_errors_def validation_warnings_def)

text \<open>
  C5. For every document whose context is longer than the effective context limit,
  \<open>validate\<close> returns the message \<open>? exceeds N chars (has M)\<close> as its warning and not among
  its errors. The errors of \<open>validate\<close> and the state it leaves do not depend on the
  context limit: they are the same with any other context limit, and with the limit
  set to the length of the context there is no warning either. So the warning does not
  block: when the source parses to this document without parse errors, the document
  with the context limit set to the length of its context has no validation error, and
  the generated text is within the total limit, \<open>compile\<close> returns \<open>success = true\<close>
  with the generated text and the warning.
\<close>

theorem context_limit_warning:
  assumes "post_context ast = Some c"
    and "lim_context (effective_limits ast) = Some (Num n)"
    and "n < length c"
  shows "validation_warnings li ast = [exceeds_msg (js ''?'') n (length c)] \<and>
         exceeds_msg (js ''?'') n (length c) \<notin> set (validation_errors li ast) \<and>
         validation_errors li (with_context_limit v ast) = validation_errors li ast \<and>
         snd (validate li (with_context_limit v ast)) = snd (validate li ast) \<and>
         validation_warnings li (with_context_limit (Some (Num (length c))) ast) = [] \<and>
         (parse src = (ast, []) \<and>
          validation_errors li (with_context_limit (Some (Num (length c))) ast) = [] \<and>
          generate ast = Inr out \<and>
          limit_error (js ''Output'') (the (lim_total (effective_limits ast))) (length out) = [] \<longrightarrow>
          compile li src =
            (Inr \<lparr>success = True, output_text = Some out, errors = [],
                  warnings = [exceeds_msg (js ''?'') n (length c)]\<rparr>,
             snd (validate li ast)))"
proof -
  have c: "c \<noteq> []"
    using assms(3) by auto
  have w: "validation_warnings li ast = [exceeds_msg (js ''?'') n (length c)]"
    using assms c by (simp add: validation_warnings_eq context_warnings_def limit_error_def)
  have e: "exceeds_msg (js ''?'') n (length c) \<notin> set (validation_errors li ast)"
    by (rule context_message_not_error) (simp add: exceeds_msg_def js_def)
  have i: "validation_errors li (with_context_limit v ast) = validation_errors li ast \<and>
           snd (validate li (with_context_limit v ast)) = snd (validate li ast)"
    by (rule validation_errors_context_limit)
  have f: "validation_warnings li (with_context_limit (Some (Num (length c))) ast) = []"
    using assms(1) by (rule context_fits)
  have r: "validation_errors li (with_context_limit (Some (Num (length c))) ast) =
           validation_errors li ast"
    using validation_errors_context_limit by blast
  have k: "parse src = (ast, []) \<and>
           validation_errors li (with_context_limit (Some (Num (length c))) ast) = [] \<and>
           generate ast = Inr out \<and>
           limit_error (js ''Output'') (the (lim_total (effective_limits ast))) (length out) = [] \<longrightarrow>
           compile li src =
             (Inr \<lparr>success = True, output_text = Some out, errors = [],
                   warnings = validation_warnings li ast\<rparr>,
              snd (validate li ast))"
    unfolding r using compile_valid [of src ast li out] by auto
  from w e i f k show ?thesis
    by simp
qed

section \<open>Runs of the validation rules\<close>

lemma long_context_parse: "parse long_context_source = (long_context_ast, [])"
  by (simp add: long_context_source_def long_context_ast_def str_eval re_eval parse_eval
      cong: map_eval_cong)

lemma long_context_validate:
  "validate li long_context_ast = (([], [js ''? exceeds 5 chars (has 15)'']), 0)"
  by (simp add: long_context_ast_def no_limits_def str_eval validate_eval
      cong: map_eval_cong filter_eval_cong)

lemma long_context_relaxed:
  "validate li (with_context_limit (Some (Num 15)) long_context_ast) = (([], []), 0)"
  by (simp add: with_context_limit_def own_limits_def long_context_ast_def no_limits_def
      str_eval validate_eval cong: map_eval_cong filter_eval_cong)

lemma long_context_generate: "generate long_context_ast = Inr long_context_output"
  by (simp add: long_context_ast_def long_context_output_def str_eval re_eval generate_eval
      cong: map_eval_cong)

lemma long_context_limits:
  "lim_context (effective_limits long_context_ast) = Some (Num 5) \<and>
   the (lim_total (effective_limits long_context_ast)) = Num 700"
  by (simp add: long_context_ast_def no_limits_def limits_eval)

lemma long_context_fits: "limit_error (js ''Output'') (Num 700) (length long_context_output) = []"
  by (simp add: limit_error_def long_context_output_def js_def)

theorem context_limit_warning_witness:
  "post_context long_context_ast = Some (js ''Some background'') \<and>
   lim_context (effective_limits long_context_ast) = Some (Num 5) \<and>
   5 < length (js ''Some background'') \<and>
   validation_warnings 0 long_context_ast = [js ''? exceeds 5 chars (has 15)''] \<and>
   js ''? exceeds 5 chars (has 15)'' \<notin> set (validation_errors 0 long_context_ast) \<and>
   validation_errors 0 (with_context_limit (Some (Num 15)) long_context_ast) = [] \<and>
   validation_warnings 0 (with_context_limit (Some (Num 15)) long_context_ast) = [] \<and>
   parse long_context_source = (long_context_ast, []) \<and>
   generate long_context_ast = Inr long_context_output \<and>
   compile 0 long_context_source =
     (Inr \<lparr>success = True, output_text = Some long_context_output, errors = [],
           warnings = [js ''? exceeds 5 chars (has 15)'']\<rparr>, 0)"
proof -
  have a: "post_context long_context_ast = Some (js ''Some background'')"
    by (simp add: long_context_ast_def)
  have len: "length (js ''Some background'') = 15"
    by (simp add: js_def)
  have b: "lim_context (effective_limits long_context_ast) = Some (Num 5)"
    by (simp add: long_context_limits)
  have c: "5 < length (js ''Some background'')"
    by (simp add: len)
  have m: "exceeds_msg (js ''?'') 5 15 = js ''? exceeds 5 chars (has 15)''"
    by (simp add: exceeds_msg_def js_def show_nat.simps)
  have v: "validation_errors 0 (with_context_limit (Some (Num 15)) long_context_ast) = []"
    by (simp add: validation_errors_def long_context_relaxed)
  have u: "validation_warnings 0 (with_context_limit (Some (Num 15)) long_context_ast) = []"
    by (simp add: validation_warnings_def long_context_relaxed)
  show ?thesis
    using context_limit_warning [OF a b c, where li = 0 and src = long_context_source
        and out = long_context_output and v = "Some (Num 15)"]
      a b c v u long_context_parse long_context_generate
    by (simp add: long_context_limits long_context_validate long_context_fits m len)
qed

theorem missing_field_errors_witness:
  "js ''Missing # (title)'' \<notin> set (validation_errors 0 (empty_ast\<lparr>title := Some (js ''Title'')\<rparr>)) \<and>
   js ''Missing ! (claim)'' \<in> set (validation_errors 0 (empty_ast\<lparr>title := Some (js ''Title'')\<rparr>)) \<and>
   js ''Missing + (evidence)'' \<in> set (validation_errors 0 (empty_ast\<lparr>title := Some (js ''Title'')\<rparr>)) \<and>
   js ''Missing > (insight)'' \<in> set (validation_errors 0 (empty_ast\<lparr>title := Some (js ''Title'')\<rparr>)) \<and>
   js ''Missing @ (source)'' \<in> set (validation_errors 0 (empty_ast\<lparr>title := Some (js ''Title'')\<rparr>))"
  using missing_field_errors [of 0 "empty_ast\<lparr>title := Some (js ''Title'')\<rparr>"]
  by (simp add: empty_ast_def js_def)

theorem evidence_count_rule_witness:
  "js ''+ limited to 5 items maximum'' \<notin>
     set (validation_errors 0 (empty_ast\<lparr>evidence := Some (replicate 5 sample_item),
            limits := Some (no_limits\<lparr>lim_evidence := Some (Num 1)\<rparr>)\<rparr>)) \<and>
   js ''Missing + (evidence)'' \<notin>
     set (validation_errors 0 (empty_ast\<lparr>evidence := Some (replicate 5 sample_item),
            limits := Some (no_limits\<lparr>lim_evidence := Some (Num 1)\<rparr>)\<rparr>)) \<and>
   js ''+ limited to 5 items maximum'' \<in>
     set (validation_errors 0 (empty_ast\<lparr>evidence := Some (replicate 6 sample_item),
            limits := Some (no_limits\<lparr>lim_evidence := Some (Num 1000)\<rparr>)\<rparr>)) \<and>
   js ''Missing + (evidence)'' \<in> set (validation_errors 0 empty_ast)"
  using
    evidence_count_rule [of 0 "empty_ast\<lparr>evidence := Some (replicate 5 sample_item),
       limits := Some (no_limits\<lparr>lim_evidence := Some (Num 1)\<rparr>)\<rparr>"]
    evidence_count_rule [of 0 "empty_ast\<lparr>evidence := Some (replicate 6 sample_item),
       limits := Some (no_limits\<lparr>lim_evidence := Some (Num 1000)\<rparr>)\<rparr>"]
    evidence_count_rule [of 0 empty_ast]
  by (simp add: empty_ast_def)

section \<open>The minimal post\<close>

lemma minimal_parse:
  "parse minimal_source =
     (minimal_ast\<lparr>source := None\<rparr>,
      [js ''Line 5: Invalid source. Use @ \"Title\" | url | \"why this source is credible\"''])"
  by (simp add: minimal_source_def minimal_ast_def str_eval re_eval parse_eval
      cong: map_eval_cong)

lemma credible_parse: "parse credible_source = (minimal_ast, [])"
  by (simp add: credible_source_def minimal_source_def minimal_ast_def str_eval re_eval parse_eval
      cong: map_eval_cong)

lemma minimal_validate: "validate li minimal_ast = (([], []), 0)"
  by (simp add: minimal_ast_def str_eval validate_eval cong: map_eval_cong filter_eval_cong)

lemma minimal_generate: "generate minimal_ast = Inr minimal_output"
  by (simp add: minimal_ast_def minimal_output_def str_eval re_eval generate_eval
      cong: map_eval_cong)

lemma minimal_limits: "the (lim_total (effective_limits minimal_ast)) = Num 700"
  by (simp add: minimal_ast_def limits_eval)

lemma minimal_output_length: "limit_error (js ''Output'') (Num 700) (length minimal_output) = []"
  by (simp add: limit_error_def minimal_output_def js_def)

lemma credible_compile:
  "compile li credible_source =
     (Inr \<lparr>success = True, output_text = Some minimal_output, errors = [], warnings = []\<rparr>, 0)"
  by (simp add: compile_def Let_def credible_parse minimal_validate minimal_generate
      minimal_limits minimal_output_length)

lemma minimal_compile:
  "compile li minimal_source =
     (Inr \<lparr>success = False, output_text = None,
           errors = [js ''Line 5: Invalid source. Use @ \"Title\" | url | \"why this source is credible\"''],
           warnings = []\<rparr>, li)"
  by (simp add: compile_def Let_def minimal_parse)

lemma minimal_output_last: "last (split_nl minimal_output) = js ''example.com''"
  by (simp add: minimal_output_def js_def)

section \<open>Banned phrases\<close>

lemma startsWith_iff: "startsWith s p \<longleftrightarrow> (\<exists>b. s = p @ b)"
  by (induction s p rule: startsWith.induct) auto

lemma includes_str_iff: "includes_str s p \<longleftrightarrow> (\<exists>a b. s = a @ p @ b)"
proof (induction s)
  case Nil
  then show ?case by auto
next
  case (Cons c cs)
  show ?case
  proof
    assume "includes_str (c # cs) p"
    then consider "startsWith (c # cs) p" | "includes_str cs p"
      by auto
    then show "\<exists>a b. c # cs = a @ p @ b"
    proof cases
      case 1
      then obtain b where "c # cs = p @ b"
        using startsWith_iff by blast
      then have "c # cs = [] @ p @ b" by simp
      then show ?thesis by blast
    next
      case 2
      then obtain a b where "cs = a @ p @ b"
        using Cons.IH by blast
      then have "c # cs = (c # a) @ p @ b" by simp
      then show ?thesis by blast
    qed
  next
    assume "\<exists>a b. c # cs = a @ p @ b"
    then obtain a b where ab: "c # cs = a @ p @ b"
      by blast
    show "includes_str (c # cs) p"
    proof (cases a)
      case Nil
      then have "startsWith (c # cs) p"
        using ab startsWith_iff by auto
      then show ?thesis by simp
    next
      case (Cons x xs)
      then have "cs = xs @ p @ b"
        using ab by simp
      then have "includes_str cs p"
        using Cons.IH by blast
      then show ?thesis by simp
    qed
  qed
qed

lemma join_infix: "f \<in> set fs \<Longrightarrow> \<exists>a b. join sep fs = a @ f @ b"
proof (induction sep fs rule: join.induct)
  case (1 sep)
  then show ?case by simp
next
  case (2 sep x)
  then have "join sep [x] = [] @ f @ []" by simp
  then show ?case by blast
next
  case (3 sep x y ys)
  show ?case
  proof (cases "f = x")
    case True
    then have "join sep (x # y # ys) = [] @ f @ (sep @ join sep (y # ys))" by simp
    then show ?thesis by blast
  next
    case False
    then have "f \<in> set (y # ys)"
      using "3.prems" by simp
    then obtain a b where "join sep (y # ys) = a @ f @ b"
      using "3.IH" by blast
    then have "join sep (x # y # ys) = (x @ sep @ a) @ f @ b" by simp
    then show ?thesis by blast
  qed
qed

lemma includes_str_trans:
  assumes "includes_str s f" and "includes_str f p"
  shows "includes_str s p"
proof -
  obtain a b where s: "s = a @ f @ b"
    using assms(1) includes_str_iff by blast
  obtain c d where f: "f = c @ p @ d"
    using assms(2) includes_str_iff by blast
  have "s = (a @ c) @ p @ (d @ b)"
    by (simp add: s f)
  then show ?thesis
    using includes_str_iff by blast
qed

lemma includes_str_lower:
  assumes "includes_str s f"
  shows "includes_str (toLowerCase s) (toLowerCase f)"
proof -
  obtain a b where "s = a @ f @ b"
    using assms includes_str_iff by blast
  then have "toLowerCase s = toLowerCase a @ toLowerCase f @ toLowerCase b"
    by (simp add: toLowerCase_def)
  then show ?thesis
    using includes_str_iff by blast
qed

lemma banned_phrases_lower: "p \<in> set BANNED_PHRASES \<Longrightarrow> toLowerCase p = p \<and> p \<noteq> []"
  by (auto simp: BANNED_PHRASES_def toLowerCase_def lower_unit_def js_def)

lemma scanned_field_in_allText:
  assumes "Some f \<in> set (scanned_fields ast)" and "f \<noteq> []"
  shows "includes_str (allText ast) (toLowerCase f)"
proof -
  have "Some f \<in> set (filter truthy (scanned_fields ast))"
    using assms by simp
  then have "the (Some f) \<in> the ` set (filter truthy (scanned_fields ast))"
    by (rule imageI)
  then have "f \<in> set (map the (filter truthy (scanned_fields ast)))"
    by simp
  then obtain a b where "join (js '' '') (map the (filter truthy (scanned_fields ast))) = a @ f @ b"
    using join_infix by blast
  then have "includes_str (join (js '' '') (map the (filter truthy (scanned_fields ast)))) f"
    using includes_str_iff by blast
  then show ?thesis
    unfolding allText_def by (rule includes_str_lower)
qed

lemma scanned_phrase_reported:
  assumes p: "p \<in> set BANNED_PHRASES"
    and f: "Some f \<in> set (scanned_fields ast)"
    and i: "includes_str (toLowerCase f) p"
  shows "banned_msg p \<in> set (validation_errors li ast)"
proof -
  have "f \<noteq> []"
    using i banned_phrases_lower [OF p] by (auto simp: toLowerCase_def)
  then have "includes_str (allText ast) (toLowerCase f)"
    using f scanned_field_in_allText by blast
  then have "includes_str (allText ast) p"
    using i includes_str_trans by blast
  then have "includes_str (allText ast) (toLowerCase p)"
    using banned_phrases_lower [OF p] by simp
  then have "banned_msg p \<in> set (banned_errors (allText ast))"
    using p banned_errors_mem by blast
  then show ?thesis
    by (simp add: validation_errors_eq style_errors_def)
qed

lemma banned_message_mem:
  "banned_msg p \<in> set (validation_errors li ast) \<longleftrightarrow> banned_msg p \<in> set (banned_errors (allText ast))"
proof -
  have b: "take 1 (banned_msg p) = js ''B''"
    by (simp add: banned_msg_def js_def)
  have 1: "banned_msg p \<notin> set (missing_errors ast)"
    using missing_errors_hd [of "banned_msg p" ast] b by (auto simp: js_def)
  have 2: "banned_msg p \<notin> set (title_errors (effective_limits ast) ast)"
    using title_errors_hd [of "banned_msg p"] b by (auto simp: js_def)
  have 3: "banned_msg p \<notin> set (claim_errors (effective_limits ast) ast)"
    using claim_errors_hd [of "banned_msg p"] b by (auto simp: js_def)
  have 4: "banned_msg p \<notin> set (evidence_errors (effective_limits ast) ast)"
    using evidence_errors_hd [of "banned_msg p"] b by (auto simp: js_def)
  have 5: "banned_msg p \<notin> set (insight_errors (effective_limits ast) ast)"
    using insight_errors_hd [of "banned_msg p"] b by (auto simp: js_def)
  have 6: "banned_msg p \<noteq> js ''Emojis are not allowed''"
    by (simp add: banned_msg_def js_def)
  have 7: "banned_msg p \<notin> set (exclamation_errors (allText ast))"
    by (auto simp: exclamation_errors_def banned_msg_def js_def Let_def)
  show ?thesis
    using 1 2 3 4 5 6 7 by (auto simp: validation_errors_eq style_errors_def)
qed

lemma allText_source_credential:
  "allText (ast\<lparr>source := s, credential := c\<rparr>) = allText ast"
  by (simp add: allText_def scanned_fields_def)

lemma banned_msg_inject: "banned_msg p = banned_msg q \<Longrightarrow> p = q"
  by (simp add: banned_msg_def)

lemma banned_message_exact:
  assumes "p \<in> set BANNED_PHRASES"
  shows "banned_msg p \<in> set (validation_errors li ast) \<longleftrightarrow> includes_str (allText ast) p"
proof -
  have "banned_msg p \<in> set (banned_errors (allText ast)) \<longleftrightarrow>
          includes_str (allText ast) (toLowerCase p)"
    using assms banned_msg_inject by (auto simp: banned_errors_mem)
  then show ?thesis
    using banned_phrases_lower [OF assms] by (simp add: banned_message_mem)
qed

text \<open>
  C3. For every document and every banned phrase: when the phrase occurs, in any
  letter case, in the title, the claim, the insight, the context or the context of an
  evidence item, \<open>validate\<close> returns the error \<open>Banned phrase: "<phrase>"\<close> for it; and
  the source (title, url, credibility) and the credential cause no such error: whatever
  they hold, the banned-phrase error is returned for the same phrases as without them.
  The error is returned exactly when the phrase occurs in the scanned text, which is
  made of those five kinds of fields only, in lower case and joined by spaces.
\<close>

theorem banned_phrase_scan:
  assumes "phrase \<in> set BANNED_PHRASES"
  shows "((title ast = Some f \<or> claim ast = Some f \<or> insight ast = Some f \<or>
           post_context ast = Some f \<or>
           (\<exists>evs e. evidence ast = Some evs \<and> e \<in> set evs \<and> ev_context e = f)) \<and>
          includes_str (toLowerCase f) phrase \<longrightarrow>
          banned_msg phrase \<in> set (validation_errors li ast)) \<and>
         (banned_msg phrase \<in> set (validation_errors li (ast\<lparr>source := s, credential := c\<rparr>)) \<longleftrightarrow>
          banned_msg phrase \<in> set (validation_errors li ast)) \<and>
         (banned_msg phrase \<in> set (validation_errors li ast) \<longleftrightarrow>
          includes_str (allText ast) phrase)"
proof -
  have "Some f \<in> set (scanned_fields ast)"
    if "title ast = Some f \<or> claim ast = Some f \<or> insight ast = Some f \<or>
        post_context ast = Some f \<or>
        (\<exists>evs e. evidence ast = Some evs \<and> e \<in> set evs \<and> ev_context e = f)"
    using that by (auto simp: scanned_fields_def)
  then have 1: "(title ast = Some f \<or> claim ast = Some f \<or> insight ast = Some f \<or>
           post_context ast = Some f \<or>
           (\<exists>evs e. evidence ast = Some evs \<and> e \<in> set evs \<and> ev_context e = f)) \<and>
          includes_str (toLowerCase f) phrase \<longrightarrow>
          banned_msg phrase \<in> set (validation_errors li ast)"
    using scanned_phrase_reported [OF assms] by blast
  have 2: "banned_msg phrase \<in> set (validation_errors li (ast\<lparr>source := s, credential := c\<rparr>)) \<longleftrightarrow>
          banned_msg phrase \<in> set (validation_errors li ast)"
    by (simp only: banned_message_mem allText_source_credential)
  have 3: "banned_msg phrase \<in> set (validation_errors li ast) \<longleftrightarrow>
          includes_str (allText ast) phrase"
    by (rule banned_message_exact [OF assms])
  from 1 2 3 show ?thesis
    by blast
qed

theorem banned_phrase_scan_witness:
  "js ''game-changer'' \<in> set BANNED_PHRASES \<and>
   js ''Banned phrase: \"game-changer\"'' \<in>
     set (validation_errors 0 (minimal_ast\<lparr>title := Some (js ''A Game-Changer plan'')\<rparr>)) \<and>
   js ''Banned phrase: \"game-changer\"'' \<notin>
     set (validation_errors 0
            (minimal_ast\<lparr>source := Some \<lparr>src_title = js ''A game-changer'',
                                          src_url = js ''https://game-changer.example'',
                                          credibility = js ''a game-changer''\<rparr>,
                         credential := Some (js ''game-changer'')\<rparr>))"
proof -
  have p: "js ''game-changer'' \<in> set BANNED_PHRASES"
    by (simp add: BANNED_PHRASES_def)
  have m: "banned_msg (js ''game-changer'') = js ''Banned phrase: \"game-changer\"''"
    by (simp add: banned_msg_def js_def)
  have i: "includes_str (toLowerCase (js ''A Game-Changer plan'')) (js ''game-changer'')"
    by (simp add: str_eval)
  have t: "title (minimal_ast\<lparr>title := Some (js ''A Game-Changer plan'')\<rparr>) =
             Some (js ''A Game-Changer plan'')"
    by simp
  have v: "validation_errors 0 minimal_ast = []"
    by (simp add: validation_errors_def minimal_validate)
  show ?thesis
    using p i t v
      banned_phrase_scan [OF p, where ast = "minimal_ast\<lparr>title := Some (js ''A Game-Changer plan'')\<rparr>"
        and f = "js ''A Game-Changer plan''" and li = 0]
      banned_phrase_scan [OF p, where ast = minimal_ast and li = 0
        and s = "Some \<lparr>src_title = js ''A game-changer'', src_url = js ''https://game-changer.example'',
               credibility = js ''a game-changer''\<rparr>" and c = "Some (js ''game-changer'')"]
    by (simp add: m)
qed

section \<open>The source line of the minimal post\<close>

text \<open>
  The source line \<open>@ "Source" | https://example.com\<close>, without a credibility segment,
  is not accepted: \<open>parse\<close> reports it and \<open>compile\<close> fails.
\<close>

theorem minimal_source_counterexample:
  "snd (parse minimal_source) =
     [js ''Line 5: Invalid source. Use @ \"Title\" | url | \"why this source is credible\"''] \<and>
   fst (compile 0 minimal_source) =
     Inr \<lparr>success = False, output_text = None,
          errors = [js ''Line 5: Invalid source. Use @ \"Title\" | url | \"why this source is credible\"''],
          warnings = []\<rparr>"
  by (simp add: minimal_parse minimal_compile)

text \<open>
  C1, as the code has it. For the minimal source of five lines that ends with
  \<open>@ "Source" | https://example.com\<close>, \<open>compile\<close> returns \<open>success = false\<close> with the one
  parse error \<open>Line 5: Invalid source. Use @ "Title" | url | "why this source is credible"\<close>:
  the source pattern requires a third segment, the quoted credibility. With
  \<open>| "Primary source"\<close> added to that line, \<open>compile\<close> returns success with the canonical
  output, the credibility in brackets under the source title, whose final line is
  \<open>example.com\<close>.
\<close>

theorem minimal_post_compile:
  "compile li minimal_source =
     (Inr \<lparr>success = False, output_text = None,
           errors = [js ''Line 5: Invalid source. Use @ \"Title\" | url | \"why this source is credible\"''],
           warnings = []\<rparr>, li) \<and>
   compile li credible_source =
     (Inr \<lparr>success = True, output_text = Some minimal_output, errors = [], warnings = []\<rparr>, 0) \<and>
   last (split_nl minimal_output) = js ''example.com''"
  by (simp add: minimal_compile credible_compile minimal_output_last)

theorem minimal_post_compile_witness:
  "compile 3 minimal_source =
     (Inr \<lparr>success = False, output_text = None,
           errors = [js ''Line 5: Invalid source. Use @ \"Title\" | url | \"why this source is credible\"''],
           warnings = []\<rparr>, 3) \<and>
   compile 3 credible_source =
     (Inr \<lparr>success = True, output_text = Some minimal_output, errors = [], warnings = []\<rparr>, 0)"
  using minimal_post_compile [of 3] by simp

section \<open>The analyzer on the text of the minimal post\<close>

lemma minimal_text_lines:
  "text_lines minimal_output =
     [js ''Title.'', js ''Claim.'', js ''Results:'', js ''- 10% improvement'', js ''Insight.'',
      js ''Source: Source'', js ''[Primary source]'', js ''example.com'']"
  by (simp add: minimal_output_def str_eval text_lines_def cong: map_eval_cong filter_eval_cong)

lemma minimal_evidence_lines:
  "filter is_evidence_line
     [js ''Title.'', js ''Claim.'', js ''Results:'', js ''- 10% improvement'', js ''Insight.'',
      js ''Source: Source'', js ''[Primary source]'', js ''example.com''] =
   [js ''- 10% improvement'']"
  by (simp add: str_eval re_eval is_evidence_line_def evidencePattern_def bulletPattern_def
      bullet_class_def cong: map_eval_cong filter_eval_cong)

lemma minimal_nonTagLines:
  "nonTagLines
     [js ''Title.'', js ''Claim.'', js ''Results:'', js ''- 10% improvement'', js ''Insight.'',
      js ''Source: Source'', js ''[Primary source]'', js ''example.com''] =
   [js ''Title.'', js ''Claim.'', js ''Results:'', js ''- 10% improvement'', js ''Insight.'',
    js ''[Primary source]'', js ''example.com'']"
  by (simp add: str_eval re_eval nonTagLines_def urlPattern_def cong: map_eval_cong filter_eval_cong)

lemma minimal_has_source: "test_anywhere urlPattern minimal_output"
  by (simp add: minimal_output_def str_eval re_eval urlPattern_def cong: map_eval_cong)

lemma minimal_no_banned: "banned_check (toLowerCase minimal_output) = no_findings"
  by (simp add: minimal_output_def str_eval banned_check_def BANNED_def no_findings_def
      cong: map_eval_cong)

lemma minimal_no_emoji: "emoji_test li minimal_output = (False, 0)"
  by (simp add: minimal_output_def js_def emoji_test_def is_emoji_def cong: filter_eval_cong)

lemma minimal_no_exclamation: "exclamation_check minimal_output = no_findings"
  by (simp add: minimal_output_def js_def exclamation_check_def no_findings_def)

lemma minimal_short: "length_check minimal_output = no_findings"
  by (simp add: minimal_output_def js_def length_check_def no_findings_def)

lemma minimal_first_line:
  "trim (js ''Title.'') = js ''Title.'' \<and> length (js ''Title.'') = 6 \<and>
   js ''Title.'' \<noteq> [] \<and> \<not> endsWith (js ''Title.'') (js ''?'')"
  by (simp add: str_eval)

lemma minimal_analyze:
  "analyze li minimal_output =
     (\<lparr>valid = True, score = 95,
       struct = \<lparr>hasTitle = True, hasClaim = True, hasEvidence = True, evidenceCount = 1,
                 hasInsight = True, hasSource = True\<rparr>,
       issues = [], analysis_warnings = [js ''Only 1 evidence point - consider adding more''],
       suggestions = []\<rparr>, 0)"
  unfolding analyze_def Let_def minimal_text_lines minimal_evidence_lines minimal_nonTagLines
    minimal_no_banned minimal_no_emoji minimal_no_exclamation minimal_short
  by (simp add: minimal_has_source title_check_def evidence_check_def source_check_def
      claim_check_def insight_check_def emoji_check_def question_check_def no_findings_def
      minimal_nonTagLines minimal_first_line Let_def)

text \<open>
  The score of the text that \<open>generate\<close> produces for the minimal post is 95, not 100.
\<close>

theorem analyze_minimal_counterexample:
  "generate minimal_ast = Inr minimal_output \<and>
   score (fst (analyze 0 minimal_output)) = 95 \<and>
   score (fst (analyze 0 minimal_output)) \<noteq> 100"
  by (simp add: minimal_generate minimal_analyze)

text \<open>
  C2, as the code has it. Feeding the text that \<open>generate\<close> produces for the minimal
  valid post (title, claim, one evidence item, insight, source) into \<open>analyze\<close> yields
  \<open>valid = true\<close> and \<open>score = 95\<close>: title, evidence and source are detected, there is no
  issue, and the single evidence line brings the warning
  \<open>Only 1 evidence point - consider adding more\<close>, which takes 5 points off.
\<close>

theorem analyze_minimal_output:
  "generate minimal_ast = Inr minimal_output \<and>
   analyze li minimal_output =
     (\<lparr>valid = True, score = 95,
       struct = \<lparr>hasTitle = True, hasClaim = True, hasEvidence = True, evidenceCount = 1,
                 hasInsight = True, hasSource = True\<rparr>,
       issues = [], analysis_warnings = [js ''Only 1 evidence point - consider adding more''],
       suggestions = []\<rparr>, 0)"
  by (simp add: minimal_generate minimal_analyze)

theorem analyze_minimal_output_witness:
  "analyze 4 minimal_output =
     (\<lparr>valid = True, score = 95,
       struct = \<lparr>hasTitle = True, hasClaim = True, hasEvidence = True, evidenceCount = 1,
                 hasInsight = True, hasSource = True\<rparr>,
       issues = [], analysis_warnings = [js ''Only 1 evidence point - consider adding more''],
       suggestions = []\<rparr>, 0)"
  using analyze_minimal_output [of 4] by simp

section \<open>Two calls of compile on one source\<close>

lemma emoji_parse: "parse emoji_source = (emoji_ast, [])"
  by (simp add: emoji_source_def emoji_ast_def minimal_ast_def str_eval re_eval parse_eval
      cong: map_eval_cong)

lemma emoji_validate_first:
  "validate 0 emoji_ast = (([js ''Emojis are not allowed''], []), 5)"
  by (simp add: emoji_ast_def minimal_ast_def str_eval validate_eval
      cong: map_eval_cong filter_eval_cong)

lemma emoji_validate_second: "validate 5 emoji_ast = (([], []), 0)"
  by (simp add: emoji_ast_def minimal_ast_def str_eval validate_eval
      cong: map_eval_cong filter_eval_cong)

lemma emoji_generate: "generate emoji_ast = Inr emoji_output"
  by (simp add: emoji_ast_def minimal_ast_def emoji_output_def str_eval re_eval generate_eval
      cong: map_eval_cong)

lemma emoji_limits: "the (lim_total (effective_limits emoji_ast)) = Num 700"
  by (simp add: emoji_ast_def minimal_ast_def limits_eval)

lemma emoji_output_length: "limit_error (js ''Output'') (Num 700) (length emoji_output) = []"
  by (simp add: limit_error_def emoji_output_def js_def)

text \<open>
  C9 says that two successive calls of \<open>compile\<close> on the same source return the same
  result. The code does not do that: \<open>EMOJI_REGEX\<close> has the flag \<open>g\<close>, so \<open>test\<close> keeps
  \<open>lastIndex\<close> between calls. Starting from a fresh module (\<open>lastIndex = 0\<close>), the first
  call on a post with one emoji in its title fails with \<open>Emojis are not allowed\<close> and
  leaves \<open>lastIndex = 5\<close>, behind the emoji; the second call on the same source searches
  from there, finds no emoji, and succeeds with a text that contains the emoji.
\<close>

theorem compile_twice_differs:
  "compile 0 emoji_source =
     (Inr \<lparr>success = False, output_text = None, errors = [js ''Emojis are not allowed''],
           warnings = []\<rparr>, 5) \<and>
   compile 5 emoji_source =
     (Inr \<lparr>success = True, output_text = Some emoji_output, errors = [], warnings = []\<rparr>, 0)"
  by (simp add: compile_def Let_def emoji_parse emoji_validate_first emoji_validate_second
      emoji_generate emoji_limits emoji_output_length)

section \<open>Limit directives in the parser\<close>








lemma parse_lines_append:
  "parse_lines i (xs @ ys) st = parse_lines (i + length xs) ys (parse_lines i xs st)"
  by (induction xs arbitrary: i st) auto



lemma split_nl_nonempty: "split_nl s \<noteq> []"
  by (induction s) (auto split: list.splits)

lemma split_nl_line: "10 \<notin> set l \<Longrightarrow> split_nl l = [l]"
  by (induction l) auto

lemma split_nl_append_line: "10 \<notin> set l \<Longrightarrow> split_nl (s @ 10 # l) = split_nl s @ [l]"
proof (induction s)
  case Nil
  then show ?case by (simp add: split_nl_line)
next
  case (Cons c cs)
  then show ?case
    using split_nl_nonempty [of cs] by (cases "split_nl cs") auto
qed

lemma parse_append_line:
  assumes "10 \<notin> set l"
  shows "parse (s @ [10] @ l) = parse_line (length (split_nl s) + 1) l (parse s)"
  using assms by (simp add: parse_def split_nl_append_line parse_lines_append)

























section \<open>Bullets in the analyzer\<close>

lemma bullet_test:
  "test_start bulletPattern (c # w # rest) \<longleftrightarrow> bullet_class c \<and> is_space w"
  by (simp add: test_start_def bulletPattern_def)

lemma analyze_evidenceCount:
  "evidenceCount (struct (fst (analyze li text))) =
     length (filter is_evidence_line (text_lines text))"
  by (simp add: analyze_def Let_def)

text \<open>
  C10. In \<open>analyze\<close>, a line that (trimmed, as the code tests it) begins with \<open>-\<close> or
  \<open>*\<close> followed by white space is counted as evidence. A line that begins with the
  bullet U+2022 followed by white space is counted exactly when the numeric pattern
  matches it: the class of \<open>bulletPattern\<close> holds the hyphen, U+00E2, U+20AC, U+00A2 and
  the asterisk, and not the bullet. \<open>evidenceCount\<close> is the number of non-blank lines
  that pass the test.
\<close>

theorem bullet_lines:
  "(trim line = c # w # rest \<and> (c = of_char CHR ''-'' \<or> c = of_char CHR ''*'') \<and> is_space w \<longrightarrow>
      is_evidence_line line) \<and>
   (trim line = 8226 # w # rest \<and> is_space w \<longrightarrow>
      (is_evidence_line line \<longleftrightarrow> test_anywhere evidencePattern line)) \<and>
   (bullet_class u \<longleftrightarrow> u = 45 \<or> u = 226 \<or> u = 8364 \<or> u = 162 \<or> u = 42) \<and>
   evidenceCount (struct (fst (analyze li post))) =
     length (filter is_evidence_line (text_lines post))"
proof -
  have 1: "trim line = c # w # rest \<and> (c = of_char CHR ''-'' \<or> c = of_char CHR ''*'') \<and> is_space w \<longrightarrow>
      is_evidence_line line"
    by (auto simp: is_evidence_line_def bullet_test bullet_class_def)
  have 2: "trim line = 8226 # w # rest \<and> is_space w \<longrightarrow>
      (is_evidence_line line \<longleftrightarrow> test_anywhere evidencePattern line)"
    by (auto simp: is_evidence_line_def bullet_test bullet_class_def)
  have 3: "bullet_class u \<longleftrightarrow> u = 45 \<or> u = 226 \<or> u = 8364 \<or> u = 162 \<or> u = 42"
    by (simp add: bullet_class_def)
  show ?thesis
    by (rule conjI [OF 1 conjI [OF 2 conjI [OF 3 analyze_evidenceCount]]])
qed

lemma bullet_sample_lines:
  "text_lines bullet_sample =
     [js ''- one'', js ''* two'', 8226 # js '' three'', 8226 # js '' 10% four''] \<and>
   trim (js ''- one'') = 45 # 32 # js ''one'' \<and>
   trim (js ''* two'') = 42 # 32 # js ''two'' \<and>
   trim (8226 # js '' three'') = 8226 # 32 # js ''three'' \<and>
   trim (8226 # js '' 10% four'') = 8226 # 32 # js ''10% four'' \<and> is_space 32"
  by (simp add: bullet_sample_def text_lines_def str_eval cong: filter_eval_cong)

lemma bullet_sample_numbers:
  "\<not> test_anywhere evidencePattern (8226 # js '' three'') \<and>
   test_anywhere evidencePattern (8226 # js '' 10% four'')"
  by (simp add: evidencePattern_def str_eval cong: map_eval_cong)

theorem bullet_lines_witness:
  "is_evidence_line (js ''- one'') \<and> is_evidence_line (js ''* two'') \<and>
   \<not> is_evidence_line (8226 # js '' three'') \<and> is_evidence_line (8226 # js '' 10% four'') \<and>
   evidenceCount (struct (fst (analyze 0 bullet_sample))) = 3"
proof -
  note t = bullet_lines [where w = 32 and li = 0 and post = bullet_sample and u = 45]
  have a: "is_evidence_line (js ''- one'')"
    using t [where line = "js ''- one''" and c = 45 and rest = "js ''one''"]
    by (simp add: bullet_sample_lines)
  have b: "is_evidence_line (js ''* two'')"
    using t [where line = "js ''* two''" and c = 42 and rest = "js ''two''"]
    by (simp add: bullet_sample_lines)
  have c: "\<not> is_evidence_line (8226 # js '' three'')"
    using t [where line = "8226 # js '' three''" and rest = "js ''three''" and c = 45]
    by (simp add: bullet_sample_lines bullet_sample_numbers del: test_anywhere.simps)
  have d: "is_evidence_line (8226 # js '' 10% four'')"
    using t [where line = "8226 # js '' 10% four''" and rest = "js ''10% four''" and c = 45]
    by (simp add: bullet_sample_lines bullet_sample_numbers del: test_anywhere.simps)
  have e: "evidenceCount (struct (fst (analyze 0 bullet_sample))) = 3"
    using t [where line = "js ''- one''" and c = 45 and rest = "js ''one''"] a b c d
    by (simp add: bullet_sample_lines del: test_anywhere.simps)
  from a b c d e show ?thesis
    by simp
qed

end
